theory Spec2Isabelle
  imports Complex_Main
begin

section \<open>Host objects and host calls\<close>

text \<open>
  The program drives a CAD host through its object model. The host is not part of the
  program: a run is modelled by the sequence of host calls it issues (the trace), in the
  order the source issues them. An object returned by a host call is named by the
  position of that call in the trace, so the order in which two objects were created
  can be read off their handles. Values the program reads back from the host
  (\<open>isValid\<close>, \<open>markerPosition\<close>, the geometry of a sketch point) are functions of the
  calls issued so far. Host calls are taken to return; a failure inside the host is
  outside the model.
\<close>

datatype Point3D = create (coord_x: real) (coord_y: real) (coord_z: real)

datatype sketch = Sketch nat
datatype body = Body nat
datatype face = Face nat
datatype edge = Edge nat

text \<open>
  \<open>Border\<close> is \<open>self.border\<close>; \<open>Rectangle n\<close> is the wrapper
  \<open>fusion.Rectangle(lines.addTwoPointRectangle(start, end))\<close> around the lines that the
  \<open>n\<close>-th host call returned. \<open>Line r Bottom\<close> is \<open>r.bottom.line\<close> and
  \<open>Point r Bottom Left\<close> is \<open>r.bottom.left.point\<close>.
\<close>

datatype rectangle = Border | Rectangle nat
datatype side = Top | Bottom | Left | Right
datatype sketch_line = Line rectangle side
datatype sketch_point = Point rectangle side side
datatype entity = PointEntity sketch_point | LineEntity sketch_line

datatype orientation = HorizontalDimension | VerticalDimension
datatype dimension = Dimension nat
datatype profile = profiles_item nat
datatype feature = ExtrudeFeature nat | PatternFeature nat
datatype feature_input = ExtrudeInput nat | PatternInput nat
datatype operation = CFO
datatype distance_type = EDT
datatype named = NamedFeature feature | NamedGroup nat

text \<open>\<open>createByString (str r)\<close> is \<open>vi.createByString(str(r))\<close>.\<close>

datatype py_str = str real
datatype value_input = createByReal real | createByString py_str

datatype modifier_kind = automatic_params | user_defined_params

datatype event =
    AddTwoPointRectangle sketch Point3D Point3D
  | AddVertical sketch sketch_line
  | AddHorizontal sketch sketch_line
  | AddDistanceDimension sketch sketch_point sketch_point orientation Point3D
  | AddCoincident sketch sketch_point entity
  | ExtrudesCreateInput body "profile list" operation
  | SetDistanceExtent feature_input bool value_input
  | SetAllExtent feature_input
  | SetParticipantBodies feature_input "body list"
  | ExtrudesAdd feature_input
  | PatternsCreateInput body "feature list" edge value_input value_input distance_type
  | SetDirectionTwo feature_input edge value_input value_input
  | MessageBox string
  | PatternsAdd feature_input
  | SetName named string
  | ModifierCall modifier_kind string dimension dimension feature feature
      "feature option" "feature option" "dimension option" "dimension option"
  | TimelineGroupsAdd int int

text \<open>
  \<open>SetAllExtent\<close> is the host's through-all extent (\<open>setAllExtent\<close>); the program
  never issues it, and it is listed only so that the kind of extent a cut receives can
  be stated.
\<close>

section \<open>The program's data\<close>

text \<open>
  \<open>FingerParams\<close> is the numeric record that the parameter strategies produce
  (\<open>automatic\<close>, \<open>user_defined\<close>; their code is not among the sources, so a
  manager is taken with its parameters computed). Python's floats are modelled as real
  numbers: the claims depend on them only through \<open>distance > 0\<close> and the truth
  value of \<open>offset\<close>. The border is the wrapper object handed to the manager; its
  class is not among the sources either, and its properties are taken as given values.
\<close>

record FingerParams =
  start :: real
  finger_length :: real
  notches :: real
  pattern_distance :: real
  offset :: real
  depth :: real
  distance :: real

record border_rectangle =
  is_vertical :: bool
  width :: real
  reference_line :: "edge option"

text \<open>
  \<open>parametric_flag\<close> is \<open>inputs.parametric\<close>, \<open>alias_name\<close> is \<open>self.alias\<close>
  and \<open>interior_value\<close> is \<open>inputs.interior.value\<close>.
\<close>

record inputs_record =
  selected_face :: face
  selected_body :: body
  tab_first :: bool
  parametric_flag :: bool
  interior_value :: real

record FingerManager =
  inputs :: inputs_record
  alias_name :: string
  border :: border_rectangle
  name :: string
  params :: FingerParams
  modifier :: modifier_kind

text \<open>
  What the run reads from outside \<open>fingermanager.py\<close>: the host's answers, and the two
  helpers of the \<open>fusion\<close> package whose code is not among the sources
  (\<open>fusion.next_point\<close>, taken as a parameter, and the value of
  \<open>fusion.perpendicular_edge_from_vertex(face, vertex).edge\<close>, \<open>None\<close> when absent).
\<close>

record env =
  isValid :: "event list \<Rightarrow> edge \<Rightarrow> bool"
  markerPosition :: "event list \<Rightarrow> int"
  geometry :: "event list \<Rightarrow> sketch_point \<Rightarrow> Point3D"
  next_point :: "Point3D \<Rightarrow> real \<Rightarrow> real \<Rightarrow> bool \<Rightarrow> Point3D"
  perpendicular_edge :: "edge option"

text \<open>
  The mutable state: the trace of host calls and the attributes that the methods set
  on \<open>self\<close> (\<open>None\<close> while an attribute has not been set).
\<close>

record state =
  trace :: "event list"
  finger :: "rectangle option"
  finger_dimension :: "dimension option"
  offset_dimension :: "dimension option"
  finger_cut :: "feature option"
  finger_pattern :: "feature option"
  left_corner :: "rectangle option"
  right_corner :: "rectangle option"
  corner_cut :: "feature option"
  corner_pattern :: "feature option"
  left_dimension :: "dimension option"
  right_dimension :: "dimension option"

datatype error = PrimaryAxisMissing | AttributeError

text \<open>
  \<open>emit\<close> issues one host call; \<open>fresh t\<close> is a manager on which no method has run,
  after the host calls \<open>t\<close>; \<open>new_events s s'\<close> are the calls issued between two
  states.
\<close>

definition emit :: "event \<Rightarrow> state \<Rightarrow> state" where
  "emit e s = s\<lparr>trace := trace s @ [e]\<rparr>"

definition fresh :: "event list \<Rightarrow> state" where
  "fresh t = \<lparr>trace = t, finger = None, finger_dimension = None, offset_dimension = None,
     finger_cut = None, finger_pattern = None, left_corner = None, right_corner = None,
     corner_cut = None, corner_pattern = None, left_dimension = None,
     right_dimension = None\<rparr>"

definition new_events :: "state \<Rightarrow> state \<Rightarrow> event list" where
  "new_events s s' = drop (length (trace s)) (trace s')"

section \<open>FingerManager.extrude and FingerManager.duplicate\<close>

text \<open>
  \<open>extrude(self, profiles, body, extrudes, name)\<close>. The object collection is the list
  of its members; the extrude collection is named by the body whose component owns it.
\<close>

definition extrude ::
  "FingerManager \<Rightarrow> profile list \<Rightarrow> body \<Rightarrow> body \<Rightarrow> string \<Rightarrow> state \<Rightarrow> feature \<times> state" where
  "extrude fm profiles body' extrudes name' s =
     (let selection = profiles;
          dist = createByString (str (- \<bar>depth (params fm) * 10\<bar>));
          cut_input = ExtrudeInput (length (trace s));
          s1 = emit (ExtrudesCreateInput extrudes selection CFO) s;
          s2 = emit (SetDistanceExtent cut_input False dist) s1;
          s3 = emit (SetParticipantBodies cut_input [body']) s2;
          cut = ExtrudeFeature (length (trace s3));
          s4 = emit (ExtrudesAdd cut_input) s3;
          s5 = emit (SetName (NamedFeature cut) name') s4
      in (cut, s5))"

definition format_bool :: "bool \<Rightarrow> string" where
  "format_bool b = (if b then ''True'' else ''False'')"

text \<open>
  \<open>not primary or not primary.isValid\<close> and
  \<open>self.params.distance > 0 and secondary and secondary.isValid\<close> evaluate left to
  right and stop early; a host object is truthy, \<open>None\<close> is not. When \<open>secondary\<close>
  is \<open>None\<close> the condition is false whatever the distance is, and the \<open>else\<close>
  branch formats its message from \<open>secondary.isValid\<close>, which raises
  \<open>AttributeError\<close> on \<open>None\<close>. The pattern input and the pattern are named by
  the positions of the calls that create them.
\<close>

definition duplicate ::
  "env \<Rightarrow> FingerManager \<Rightarrow> string \<Rightarrow> feature list \<Rightarrow> real \<Rightarrow> real \<Rightarrow> real \<Rightarrow>
   edge option \<Rightarrow> edge option \<Rightarrow> body \<Rightarrow> state \<Rightarrow> (error + feature) \<times> state" where
  "duplicate en fm name' features quantity distance' squantity primary secondary body' s =
     (case primary of
        None \<Rightarrow> (Inl PrimaryAxisMissing, s)
      | Some p \<Rightarrow>
          if \<not> isValid en (trace s) p then (Inl PrimaryAxisMissing, s)
          else
            let entities = features;
                quantity' = createByReal quantity;
                distance'' = createByReal distance';
                input' = PatternInput (length (trace s));
                s1 = emit (PatternsCreateInput body' entities p quantity' distance'' EDT) s;
                branch =
                  (case secondary of
                     None \<Rightarrow> Inl AttributeError
                   | Some c \<Rightarrow>
                       if distance (params fm) > 0 \<and> isValid en (trace s1) c then
                         let second_distance =
                               createByReal (distance (params fm) - depth (params fm))
                         in Inr (emit (SetDirectionTwo input' c (createByReal squantity)
                                         second_distance) s1)
                       else
                         Inr (emit (MessageBox (''secondary valid: '' @
                                      format_bool (isValid en (trace s1) c))) s1))
            in (case branch of
                  Inl e \<Rightarrow> (Inl e, s1)
                | Inr s2 \<Rightarrow>
                    let pattern = PatternFeature (length (trace s2));
                        s3 = emit (PatternsAdd input') s2;
                        s4 = emit (SetName (NamedFeature pattern) name') s3
                    in (Inr pattern, s4)))"

section \<open>Sketch.offset_point\<close>

text \<open>
  \<open>Sketch.offset_point(self, point, length, width=0)\<close>; \<open>self.is_vertical\<close> is the
  border's \<open>is_vertical\<close> and is passed as the first argument.
\<close>

definition offset_point :: "bool \<Rightarrow> Point3D \<Rightarrow> real \<Rightarrow> real \<Rightarrow> Point3D" where
  "offset_point vertical point len wid =
     (let (xoffset, yoffset) = (if vertical then (wid, len) else (len, wid))
      in create (coord_x point + xoffset) (coord_y point + yoffset) (coord_z point))"

section \<open>Drawing and constraining the finger\<close>

text \<open>\<open>emits\<close> issues several host calls one after the other.\<close>

definition emits :: "event list \<Rightarrow> state \<Rightarrow> state" where
  "emits es s = s\<lparr>trace := trace s @ es\<rparr>"

text \<open>
  \<open>constrain_finger\<close> reads \<open>self.finger\<close> for the four orientation constraints and
  its argument \<open>finger\<close> for the dimensions and coincidences; reading an attribute
  that was never set raises \<open>AttributeError\<close>.
\<close>

definition constrain_finger ::
  "env \<Rightarrow> FingerManager \<Rightarrow> sketch \<Rightarrow> rectangle \<Rightarrow> state \<Rightarrow> (error + unit) \<times> state" where
  "constrain_finger en fm sk fng s =
     (let reference = geometry en (trace s) (Point fng Bottom Left)
      in case finger s of
           None \<Rightarrow> (Inl AttributeError, s)
         | Some sf \<Rightarrow>
             if is_vertical (border fm) then
               let s1 = emits [AddVertical sk (Line sf Bottom), AddVertical sk (Line sf Top),
                               AddHorizontal sk (Line sf Left),
                               AddHorizontal sk (Line sf Right)] s;
                   fd = Dimension (length (trace s1));
                   s2 = (emit (AddDistanceDimension sk (Point fng Bottom Left)
                                 (Point fng Top Left) VerticalDimension
                                 (create (coord_x reference - 1 / 2)
                                         (coord_y reference + 1 / 2) 0)) s1)
                          \<lparr>finger_dimension := Some fd\<rparr>;
                   od = Dimension (length (trace s2));
                   s3 = (emit (AddDistanceDimension sk (Point fng Bottom Left)
                                 (Point Border Bottom Left) VerticalDimension
                                 (create (coord_x reference - 1 / 2)
                                         (coord_y reference + 1 / 2) 0)) s2)
                          \<lparr>offset_dimension := Some od\<rparr>;
                   s4 = emits [AddCoincident sk (Point fng Bottom Right)
                                 (LineEntity (Line Border Right)),
                               AddCoincident sk (Point fng Top Left)
                                 (LineEntity (Line Border Left))] s3
               in (Inr (), s4)
             else
               let s1 = emits [AddHorizontal sk (Line sf Bottom), AddHorizontal sk (Line sf Top),
                               AddVertical sk (Line sf Left),
                               AddVertical sk (Line sf Right)] s;
                   fd = Dimension (length (trace s1));
                   s2 = (emit (AddDistanceDimension sk (Point fng Bottom Left)
                                 (Point fng Bottom Right) HorizontalDimension
                                 (create (coord_x reference + 1 / 2)
                                         (coord_y reference - 1 / 2) 0)) s1)
                          \<lparr>finger_dimension := Some fd\<rparr>;
                   od = Dimension (length (trace s2));
                   s3 = (emit (AddDistanceDimension sk (Point fng Bottom Left)
                                 (Point Border Bottom Left) HorizontalDimension
                                 (create (coord_x reference + 1 / 2)
                                         (coord_y reference - 1 / 2) 0)) s2)
                          \<lparr>offset_dimension := Some od\<rparr>;
                   s4 = emits [AddCoincident sk (Point fng Bottom Left)
                                 (LineEntity (Line Border Bottom)),
                               AddCoincident sk (Point fng Top Right)
                                 (LineEntity (Line Border Top))] s3
               in (Inr (), s4))"

text \<open>
  \<open>draw_finger\<close>: the rectangle, its constraints, the cut of \<open>sketch.profiles.item(0)\<close>
  and the pattern of that cut, \<open>params.notches\<close> times along the primary axis. An
  exception of \<open>duplicate\<close> leaves the method at once, with the state as it is.
\<close>

definition draw_finger ::
  "env \<Rightarrow> FingerManager \<Rightarrow> sketch \<Rightarrow> body \<Rightarrow> body \<Rightarrow> edge option \<Rightarrow> edge option \<Rightarrow>
   state \<Rightarrow> (error + unit) \<times> state" where
  "draw_finger en fm sk extrudes body' primary secondary s =
     (let start' = next_point en (geometry en (trace s) (Point Border Bottom Left))
                     (start (params fm)) 0 (is_vertical (border fm));
          end' = next_point en start' (finger_length (params fm)) (width (border fm))
                   (is_vertical (border fm));
          fng = Rectangle (length (trace s));
          s1 = (emit (AddTwoPointRectangle sk start' end') s)\<lparr>finger := Some fng\<rparr>
      in case constrain_finger en fm sk fng s1 of
           (Inl e, s2) \<Rightarrow> (Inl e, s2)
         | (Inr u, s2) \<Rightarrow>
             let profiles = [profiles_item 0];
                 cname = name fm @ '' Finger Cut Extrude'';
                 (cut, s3) = extrude fm profiles body' extrudes cname s2;
                 s4 = s3\<lparr>finger_cut := Some cut\<rparr>;
                 quantity = notches (params fm);
                 distance' = pattern_distance (params fm);
                 dname = name fm @ '' Finger Duplicate Pattern''
             in (case duplicate en fm dname [cut] quantity distance'
                        (interior_value (inputs fm) + 2) primary secondary body' s4 of
                   (Inl e, s5) \<Rightarrow> (Inl e, s5)
                 | (Inr pat, s5) \<Rightarrow> (Inr (), s5\<lparr>finger_pattern := Some pat\<rparr>)))"

section \<open>The corner notches\<close>

text \<open>
  The two corner rectangles start at the border's bottom left point and one offset
  before its bottom right point. \<open>constrain_horizontal_corners\<close> and
  \<open>constrain_vertical_corners\<close> are transcribed call by call, each from its own
  source text.
\<close>

definition draw_left_corner ::
  "env \<Rightarrow> FingerManager \<Rightarrow> sketch \<Rightarrow> state \<Rightarrow> rectangle \<times> state" where
  "draw_left_corner en fm sk s =
     (let start' = geometry en (trace s) (Point Border Bottom Left);
          end' = next_point en start' (offset (params fm)) (width (border fm))
                   (is_vertical (border fm))
      in (Rectangle (length (trace s)), emit (AddTwoPointRectangle sk start' end') s))"

definition draw_right_corner ::
  "env \<Rightarrow> FingerManager \<Rightarrow> sketch \<Rightarrow> state \<Rightarrow> rectangle \<times> state" where
  "draw_right_corner en fm sk s =
     (let start' = next_point en (geometry en (trace s) (Point Border Bottom Right))
                     (- offset (params fm)) 0 (is_vertical (border fm));
          end' = next_point en start' (offset (params fm)) (width (border fm))
                   (is_vertical (border fm))
      in (Rectangle (length (trace s)), emit (AddTwoPointRectangle sk start' end') s))"

definition constrain_horizontal_corners ::
  "env \<Rightarrow> sketch \<Rightarrow> rectangle \<Rightarrow> rectangle \<Rightarrow> state \<Rightarrow> state" where
  "constrain_horizontal_corners en sk lc rc s =
     (let lreference = geometry en (trace s) (Point lc Bottom Left);
          rreference = geometry en (trace s) (Point rc Bottom Left);
          ld = Dimension (length (trace s));
          s1 = (emit (AddDistanceDimension sk (Point lc Bottom Left) (Point lc Bottom Right)
                        HorizontalDimension
                        (create (coord_x lreference + 1 / 2) (coord_y lreference - 1 / 2) 0)) s)
                 \<lparr>left_dimension := Some ld\<rparr>;
          s2 = emits [AddCoincident sk (Point lc Bottom Left)
                        (PointEntity (Point Border Bottom Left)),
                      AddCoincident sk (Point lc Top Right) (LineEntity (Line Border Top)),
                      AddHorizontal sk (Line lc Bottom), AddHorizontal sk (Line lc Top),
                      AddVertical sk (Line lc Left), AddVertical sk (Line lc Right)] s1;
          rd = Dimension (length (trace s2));
          s3 = (emit (AddDistanceDimension sk (Point rc Bottom Left) (Point rc Bottom Right)
                        HorizontalDimension
                        (create (coord_x rreference + 1 / 2) (coord_y rreference - 1 / 2) 0)) s2)
                 \<lparr>right_dimension := Some rd\<rparr>
      in emits [AddCoincident sk (Point rc Bottom Left) (LineEntity (Line Border Bottom)),
                AddCoincident sk (Point rc Top Right)
                  (PointEntity (Point Border Top Right)),
                AddHorizontal sk (Line rc Bottom), AddHorizontal sk (Line rc Top),
                AddVertical sk (Line rc Left), AddVertical sk (Line rc Right)] s3)"

definition constrain_vertical_corners ::
  "env \<Rightarrow> sketch \<Rightarrow> rectangle \<Rightarrow> rectangle \<Rightarrow> state \<Rightarrow> state" where
  "constrain_vertical_corners en sk lc rc s =
     (let lreference = geometry en (trace s) (Point lc Bottom Left);
          rreference = geometry en (trace s) (Point rc Bottom Left);
          ld = Dimension (length (trace s));
          s1 = (emit (AddDistanceDimension sk (Point lc Bottom Left) (Point lc Bottom Right)
                        HorizontalDimension
                        (create (coord_x lreference + 1 / 2) (coord_y lreference - 1 / 2) 0)) s)
                 \<lparr>left_dimension := Some ld\<rparr>;
          s2 = emits [AddCoincident sk (Point lc Bottom Left)
                        (PointEntity (Point Border Bottom Left)),
                      AddCoincident sk (Point lc Top Right) (LineEntity (Line Border Top)),
                      AddHorizontal sk (Line lc Bottom), AddHorizontal sk (Line lc Top),
                      AddVertical sk (Line lc Left), AddVertical sk (Line lc Right)] s1;
          rd = Dimension (length (trace s2));
          s3 = (emit (AddDistanceDimension sk (Point rc Bottom Left) (Point rc Bottom Right)
                        HorizontalDimension
                        (create (coord_x rreference + 1 / 2) (coord_y rreference - 1 / 2) 0)) s2)
                 \<lparr>right_dimension := Some rd\<rparr>
      in emits [AddCoincident sk (Point rc Bottom Left) (LineEntity (Line Border Bottom)),
                AddCoincident sk (Point rc Top Right)
                  (PointEntity (Point Border Top Right)),
                AddHorizontal sk (Line rc Bottom), AddHorizontal sk (Line rc Top),
                AddVertical sk (Line rc Left), AddVertical sk (Line rc Right)] s3)"

text \<open>
  \<open>draw_corner\<close>: both rectangles, one cut of \<open>sketch.profiles.item(1)\<close> and
  \<open>item(2)\<close>, its pattern (quantity 1, distance 0, secondary quantity 2), and then the
  constraints chosen by \<open>self.border.is_vertical\<close>.
\<close>

definition draw_corner ::
  "env \<Rightarrow> FingerManager \<Rightarrow> sketch \<Rightarrow> body \<Rightarrow> body \<Rightarrow> edge option \<Rightarrow> edge option \<Rightarrow>
   state \<Rightarrow> (error + unit) \<times> state" where
  "draw_corner en fm sk extrudes body' primary secondary s =
     (let (lc, sa) = draw_left_corner en fm sk s;
          s1 = sa\<lparr>left_corner := Some lc\<rparr>;
          (rc, sb) = draw_right_corner en fm sk s1;
          s2 = sb\<lparr>right_corner := Some rc\<rparr>;
          name' = name fm @ '' Corner Cut Extrude'';
          profiles = [profiles_item 1, profiles_item 2];
          (cut, s3) = extrude fm profiles body' extrudes name' s2;
          s4 = s3\<lparr>corner_cut := Some cut\<rparr>;
          dname = name fm @ '' Corner Duplicate Pattern''
      in case duplicate en fm dname [cut] 1 0 2 primary secondary body' s4 of
           (Inl e, s5) \<Rightarrow> (Inl e, s5)
         | (Inr pat, s5) \<Rightarrow>
             let s6 = s5\<lparr>corner_pattern := Some pat\<rparr>
             in if is_vertical (border fm)
                then (Inr (), constrain_vertical_corners en sk lc rc s6)
                else (Inr (), constrain_horizontal_corners en sk lc rc s6))"

section \<open>FingerManager.draw\<close>

text \<open>
  The call \<open>self.modifier(self.alias, ..., self.finger_dimension, ...)\<close>: the four
  attributes read directly raise \<open>AttributeError\<close> when unset, the four read through
  \<open>getattr(self, ..., None)\<close> default to \<open>None\<close>. The modifier itself
  (\<open>automatic_params\<close> or \<open>user_defined_params\<close>) is not among the sources; its
  invocation is one entry of the trace.
\<close>

definition call_modifier :: "FingerManager \<Rightarrow> state \<Rightarrow> (error + unit) \<times> state" where
  "call_modifier fm s =
     (case (finger_dimension s, offset_dimension s, finger_cut s, finger_pattern s) of
        (Some fd, Some od, Some fc, Some fp) \<Rightarrow>
          (Inr (), emit (ModifierCall (modifier fm) (alias_name fm) fd od fc fp
                           (corner_cut s) (corner_pattern s)
                           (left_dimension s) (right_dimension s)) s)
      | _ \<Rightarrow> (Inl AttributeError, s))"

text \<open>
  \<open>extrudes\<close> is the extrude collection of the selected body's component and is named
  by that body. \<open>self.params.offset\<close> is a number, truthy when it is not zero.
\<close>

definition draw :: "env \<Rightarrow> FingerManager \<Rightarrow> sketch \<Rightarrow> state \<Rightarrow> (error + unit) \<times> state" where
  "draw en fm sk s =
     (let extrudes = selected_body (inputs fm);
          body' = selected_body (inputs fm);
          primary = reference_line (border fm);
          secondary = perpendicular_edge en;
          start_mp = markerPosition en (trace s) - 1
      in case draw_finger en fm sk extrudes body' primary secondary s of
           (Inl e, s1) \<Rightarrow> (Inl e, s1)
         | (Inr u, s1) \<Rightarrow>
             (case (if offset (params fm) \<noteq> 0 \<and> \<not> tab_first (inputs fm)
                    then draw_corner en fm sk extrudes body' primary secondary s1
                    else (Inr (), s1)) of
                (Inl e, s2) \<Rightarrow> (Inl e, s2)
              | (Inr u, s2) \<Rightarrow>
                  (case (if \<not> parametric_flag (inputs fm) then call_modifier fm s2
                         else (Inr (), s2)) of
                     (Inl e, s3) \<Rightarrow> (Inl e, s3)
                   | (Inr u, s3) \<Rightarrow>
                       let end_mp = markerPosition en (trace s3);
                           tlgroup = NamedGroup (length (trace s3));
                           s4 = emit (TimelineGroupsAdd start_mp (end_mp - 1)) s3;
                           s5 = emit (SetName tlgroup (name fm @ '' Finger Group'')) s4
                       in (Inr (), s5))))"

section \<open>Sketch.__init__\<close>

text \<open>
  The constructor of \<open>Sketch\<close> talks to the host about one new sketch. Its lines are
  the host collection \<open>sketch.sketchCurves.sketchLines\<close>, read live: a line is named by
  its index in that collection, and the state keeps the collection's size. What the host
  decides is a parameter: how many lines a new sketch on a face holds
  (\<open>outline_lines\<close>), how many lines projecting an edge adds (\<open>projected_lines\<close>),
  and the edges of the face (\<open>brep_edges\<close>, \<open>face.brepface.edges\<close>).
\<close>

record sketch_host =
  outline_lines :: "face \<Rightarrow> nat"
  projected_lines :: "edge \<Rightarrow> nat"
  brep_edges :: "face \<Rightarrow> edge list"

datatype sketch_event =
    SketchesAdd body face
  | SetSketchName string
  | SetIsConstruction nat
  | Project edge

record sketch_state =
  sketch_trace :: "sketch_event list"
  line_count :: nat

record sketch_rectangle =
  rectangle_lines :: "nat list"

datatype saved_reference =
    ReferencePoints sketch_rectangle
  | ReferenceLine sketch_rectangle
  | ReferencePlane

record Sketch_object =
  sketch_face :: face
  face_lines :: sketch_rectangle
  sketch_border :: sketch_rectangle
  reference_points :: saved_reference
  reference_plane :: saved_reference
  sketch_reference_line :: saved_reference

text \<open>
  \<open>slice a b n\<close> is the list of indices of \<open>lines[a:b]\<close> in a collection of \<open>n\<close>
  lines: a Python slice stops at the end of the collection.
\<close>

definition slice :: "nat \<Rightarrow> nat \<Rightarrow> nat \<Rightarrow> nat list" where
  "slice a b n = [a..<min b n]"

text \<open>
  Modelled from the spec: the class \<open>Rectangle\<close> of \<open>core/fusion/sketch/rectangle.py\<close>
  is not among the sources. The spec describes it as a helper that tracks the sketch
  lines it is given, and says of the sketch wrapper that it converts boundary edges to
  construction geometry; \<open>Sketch.__init__\<close> asks for that with \<open>construction=True\<close>.
  So \<open>Rectangle(sketch, lines, construction)\<close> keeps the lines and, when
  \<open>construction\<close> is set, marks each of them as construction geometry, in order.
\<close>

definition Rectangle_init ::
  "nat list \<Rightarrow> bool \<Rightarrow> sketch_state \<Rightarrow> sketch_rectangle \<times> sketch_state" where
  "Rectangle_init lines construction st =
     (\<lparr>rectangle_lines = lines\<rparr>,
      if construction
      then st\<lparr>sketch_trace := sketch_trace st @ map SetIsConstruction lines\<rparr>
      else st)"

text \<open>\<open>self.sketch.project(line)\<close>: one host call, after which the collection has grown.\<close>

definition project :: "sketch_host \<Rightarrow> edge \<Rightarrow> sketch_state \<Rightarrow> sketch_state" where
  "project h line st =
     st\<lparr>sketch_trace := sketch_trace st @ [Project line],
        line_count := line_count st + projected_lines h line\<rparr>"

text \<open>
  The loop \<open>for line in self.face.brepface.edges[0:4]\<close> is the fold over the first four
  edges. \<open>reference_points\<close> and \<open>reference_line\<close> are attributes of the border
  rectangle and are recorded as such.
\<close>

definition Sketch_init ::
  "sketch_host \<Rightarrow> string \<Rightarrow> body \<Rightarrow> face \<Rightarrow> sketch_state \<Rightarrow> Sketch_object \<times> sketch_state" where
  "Sketch_init h name' body' fc st =
     (let st1 = st\<lparr>sketch_trace := sketch_trace st @ [SketchesAdd body' fc],
                   line_count := outline_lines h fc\<rparr>;
          st2 = st1\<lparr>sketch_trace := sketch_trace st1 @ [SetSketchName name']\<rparr>;
          (fl, st3) = Rectangle_init (slice 0 4 (line_count st2)) True st2;
          st4 = fold (project h) (take 4 (brep_edges h fc)) st3;
          (bd, st5) = Rectangle_init (slice 4 8 (line_count st4)) True st4
      in (\<lparr>sketch_face = fc, face_lines = fl, sketch_border = bd,
           reference_points = ReferencePoints bd,
           reference_plane = ReferencePlane,
           sketch_reference_line = ReferenceLine bd\<rparr>, st5))"

section \<open>Vocabulary for stating the claims\<close>

text \<open>
  The steps the specification speaks of. Every host call belongs to one step; the message
  box of \<open>duplicate\<close> belongs to the pattern step, and a name is set as part of the
  step that created the named object.
\<close>

datatype step = DrawRectangle | Constrain | ExtrudeCut | PatternDuplicate | ReplaceLiterals
  | TimelineGroup

fun step_of :: "event \<Rightarrow> step" where
  "step_of (AddTwoPointRectangle _ _ _) = DrawRectangle"
| "step_of (AddVertical _ _) = Constrain"
| "step_of (AddHorizontal _ _) = Constrain"
| "step_of (AddDistanceDimension _ _ _ _ _) = Constrain"
| "step_of (AddCoincident _ _ _) = Constrain"
| "step_of (ExtrudesCreateInput _ _ _) = ExtrudeCut"
| "step_of (SetDistanceExtent _ _ _) = ExtrudeCut"
| "step_of (SetAllExtent _) = ExtrudeCut"
| "step_of (SetParticipantBodies _ _) = ExtrudeCut"
| "step_of (ExtrudesAdd _) = ExtrudeCut"
| "step_of (PatternsCreateInput _ _ _ _ _ _) = PatternDuplicate"
| "step_of (SetDirectionTwo _ _ _ _) = PatternDuplicate"
| "step_of (MessageBox _) = PatternDuplicate"
| "step_of (PatternsAdd _) = PatternDuplicate"
| "step_of (SetName (NamedFeature (ExtrudeFeature _)) _) = ExtrudeCut"
| "step_of (SetName (NamedFeature (PatternFeature _)) _) = PatternDuplicate"
| "step_of (SetName (NamedGroup _) _) = TimelineGroup"
| "step_of (ModifierCall _ _ _ _ _ _ _ _ _ _) = ReplaceLiterals"
| "step_of (TimelineGroupsAdd _ _) = TimelineGroup"

text \<open>
  \<open>steps\<close> reads a trace as the sequence of steps it goes through: consecutive calls
  of one step count once.
\<close>

definition steps :: "event list \<Rightarrow> step list" where
  "steps es = remdups_adj (map step_of es)"

text \<open>
  The steps of the calls, one entry per call: of the finger up to its cut (one rectangle,
  eight constraints and dimensions, five calls for the extrude), of one pattern
  duplication, of the two corner rectangles and their cut, and of the corner constraints.
\<close>

definition finger_cut_steps :: "step list" where
  "finger_cut_steps = DrawRectangle # replicate 8 Constrain @ replicate 5 ExtrudeCut"

definition pattern_steps :: "step list" where
  "pattern_steps = replicate 4 PatternDuplicate"

definition corner_cut_steps :: "step list" where
  "corner_cut_steps = replicate 2 DrawRectangle @ replicate 5 ExtrudeCut"

definition corner_constrain_steps :: "step list" where
  "corner_constrain_steps = replicate 14 Constrain"

text \<open>The attributes of \<open>self\<close>, grouped as the modifier receives them.\<close>

definition finger_attrs ::
  "state \<Rightarrow> dimension option \<times> dimension option \<times> feature option \<times> feature option" where
  "finger_attrs s = (finger_dimension s, offset_dimension s, finger_cut s, finger_pattern s)"

definition corner_attrs ::
  "state \<Rightarrow> rectangle option \<times> rectangle option \<times> feature option \<times> feature option \<times>
     dimension option \<times> dimension option" where
  "corner_attrs s = (left_corner s, right_corner s, corner_cut s, corner_pattern s,
     left_dimension s, right_dimension s)"

text \<open>
  \<open>corner_wanted\<close> is the test \<open>self.params.offset and not self.inputs.tab_first\<close>
  of \<open>draw\<close>; \<open>modifier_events\<close> is the modifier's invocation as \<open>draw\<close> issues
  it from a state in which the finger's attributes are set.
\<close>

definition corner_wanted :: "FingerManager \<Rightarrow> bool" where
  "corner_wanted fm = (offset (params fm) \<noteq> 0 \<and> \<not> tab_first (inputs fm))"

definition modifier_events :: "FingerManager \<Rightarrow> state \<Rightarrow> event list" where
  "modifier_events fm s =
     (case (finger_dimension s, offset_dimension s, finger_cut s, finger_pattern s) of
        (Some fd, Some od, Some fc, Some fp) \<Rightarrow>
          if parametric_flag (inputs fm) then []
          else [ModifierCall (modifier fm) (alias_name fm) fd od fc fp
                  (corner_cut s) (corner_pattern s) (left_dimension s) (right_dimension s)]
      | _ \<Rightarrow> [])"

text \<open>Kinds of host calls that the claims single out.\<close>

definition sets_direction_two :: "event \<Rightarrow> bool" where
  "sets_direction_two e = (case e of SetDirectionTwo _ _ _ _ \<Rightarrow> True | _ \<Rightarrow> False)"

definition shows_message_box :: "event \<Rightarrow> bool" where
  "shows_message_box e = (case e of MessageBox _ \<Rightarrow> True | _ \<Rightarrow> False)"

definition adds_pattern :: "event \<Rightarrow> bool" where
  "adds_pattern e = (case e of PatternsAdd _ \<Rightarrow> True | _ \<Rightarrow> False)"

definition through_all :: "event \<Rightarrow> bool" where
  "through_all e = (case e of SetAllExtent _ \<Rightarrow> True | _ \<Rightarrow> False)"

definition sets_extent :: "event \<Rightarrow> bool" where
  "sets_extent e =
     (case e of SetAllExtent _ \<Rightarrow> True | SetDistanceExtent _ _ _ \<Rightarrow> True | _ \<Rightarrow> False)"

definition orientation_constraints :: "event list \<Rightarrow> event list" where
  "orientation_constraints es =
     filter (\<lambda>e. case e of AddVertical _ _ \<Rightarrow> True | AddHorizontal _ _ \<Rightarrow> True | _ \<Rightarrow> False) es"

fun dimension_orientations :: "event list \<Rightarrow> orientation list" where
  "dimension_orientations [] = []"
| "dimension_orientations (AddDistanceDimension _ _ _ ori _ # es) =
     ori # dimension_orientations es"
| "dimension_orientations (_ # es) = dimension_orientations es"

text \<open>
  The handle of an object is the position in the trace of the call that created it, so
  the corner rectangle was drawn before the finger was cut when its handle is the
  smaller one.
\<close>

definition corners_precede_cut :: "state \<Rightarrow> bool" where
  "corners_precede_cut s =
     (case (left_corner s, finger_cut s) of
        (Some (Rectangle n), Some (ExtrudeFeature m)) \<Rightarrow> n < m
      | _ \<Rightarrow> False)"

definition corners_follow_cut :: "state \<Rightarrow> bool" where
  "corners_follow_cut s =
     (case (left_corner s, finger_cut s) of
        (Some (Rectangle n), Some (ExtrudeFeature m)) \<Rightarrow> m < n
      | _ \<Rightarrow> False)"

text \<open>
  The state in which \<open>draw_finger\<close> calls \<open>duplicate\<close>: the rectangle drawn,
  constrained and cut, the pattern not yet asked for. Up to that call \<open>draw_finger\<close>
  reads neither axis, and \<open>duplicate\<close> without a primary axis raises before any host
  call, so the call of \<open>draw_finger\<close> without axes stops in exactly this state (lemma
  \<open>finger_cut_state_reached\<close>: for all axes, \<open>draw_finger\<close> is \<open>duplicate\<close>
  called in this state). \<open>corner_cut_state\<close> is the same for \<open>draw_corner\<close>: both
  corner rectangles drawn and cut (lemma \<open>corner_cut_state_reached\<close>).
\<close>

definition finger_cut_state :: "env \<Rightarrow> FingerManager \<Rightarrow> sketch \<Rightarrow> state \<Rightarrow> state" where
  "finger_cut_state en fm sk s =
     snd (draw_finger en fm sk (selected_body (inputs fm)) (selected_body (inputs fm))
            None None s)"

definition corner_cut_state :: "env \<Rightarrow> FingerManager \<Rightarrow> sketch \<Rightarrow> state \<Rightarrow> state" where
  "corner_cut_state en fm sk s =
     snd (draw_corner en fm sk (selected_body (inputs fm)) (selected_body (inputs fm))
            None None s)"

section \<open>Concrete inputs\<close>

text \<open>
  A host in which every reference is valid, with \<open>fusion.next_point\<close> taken to offset
  a point as \<open>Sketch.offset_point\<close> does, and a manager for a horizontal border with
  a corner offset, literal values and tabs not first. The variants change one input each.
\<close>

definition example_env :: env where
  "example_env = \<lparr>isValid = (\<lambda>t e. True), markerPosition = (\<lambda>t. int (length t)),
     geometry = (\<lambda>t p. create 0 0 0), next_point = (\<lambda>p l w v. offset_point v p l w),
     perpendicular_edge = Some (Edge 2)\<rparr>"

definition example_manager :: FingerManager where
  "example_manager = \<lparr>inputs = \<lparr>selected_face = Face 0, selected_body = Body 0,
        tab_first = False, parametric_flag = False, interior_value = 0\<rparr>,
     alias_name = ''a'',
     border = \<lparr>is_vertical = False, width = 2, reference_line = Some (Edge 1)\<rparr>,
     name = ''F'',
     params = \<lparr>start = 1, finger_length = 3, notches = 4, pattern_distance = 20,
        offset = 1, depth = 1, distance = 5\<rparr>,
     modifier = automatic_params\<rparr>"

definition no_primary_manager :: FingerManager where
  "no_primary_manager =
     example_manager\<lparr>border := (border example_manager)\<lparr>reference_line := None\<rparr>\<rparr>"

definition invalid_secondary_env :: env where
  "invalid_secondary_env = example_env\<lparr>isValid := (\<lambda>t e. e = Edge 1)\<rparr>"

definition vertical_manager :: FingerManager where
  "vertical_manager =
     example_manager\<lparr>border := (border example_manager)\<lparr>is_vertical := True\<rparr>\<rparr>"

definition parametric_manager :: FingerManager where
  "parametric_manager =
     example_manager\<lparr>inputs := (inputs example_manager)\<lparr>parametric_flag := True\<rparr>\<rparr>"

definition tab_first_manager :: FingerManager where
  "tab_first_manager =
     example_manager\<lparr>inputs := (inputs example_manager)\<lparr>tab_first := True\<rparr>\<rparr>"

text \<open>A host for a rectangular face: four outline lines, four edges, one line for each.\<close>

definition rectangular_host :: sketch_host where
  "rectangular_host = \<lparr>outline_lines = (\<lambda>f. 4), projected_lines = (\<lambda>e. 1),
     brep_edges = (\<lambda>f. [Edge 0, Edge 1, Edge 2, Edge 3])\<rparr>"

text \<open>
  A host on which every edge stops being valid after twenty calls: the reference line is
  valid when the finger is duplicated and invalid when the corners are.
\<close>

definition short_lived_env :: env where
  "short_lived_env = example_env\<lparr>isValid := (\<lambda>t e. length t < 20)\<rparr>"

text \<open>
  A host for a triangular face: three outline lines, three edges, one line for each.
\<close>

definition triangular_host :: sketch_host where
  "triangular_host = \<lparr>outline_lines = (\<lambda>f. 3), projected_lines = (\<lambda>e. 1),
     brep_edges = (\<lambda>f. [Edge 0, Edge 1, Edge 2])\<rparr>"

section \<open>What each method does to the trace\<close>

lemma trace_emit [simp]: "trace (emit e s) = trace s @ [e]"
  by (simp add: emit_def)

lemma trace_emits [simp]: "trace (emits es s) = trace s @ es"
  by (simp add: emits_def)

lemma extrude_eq:
  "extrude fm ps b ex nm s =
     (ExtrudeFeature (length (trace s) + 3),
      emits [ExtrudesCreateInput ex ps CFO,
             SetDistanceExtent (ExtrudeInput (length (trace s))) False
               (createByString (str (- \<bar>depth (params fm) * 10\<bar>))),
             SetParticipantBodies (ExtrudeInput (length (trace s))) [b],
             ExtrudesAdd (ExtrudeInput (length (trace s))),
             SetName (NamedFeature (ExtrudeFeature (length (trace s) + 3))) nm] s)"
  by (simp add: extrude_def emit_def emits_def Let_def)


lemma emit_emits: "emit e s = emits [e] s"
  by (simp add: emit_def emits_def)

lemma emits_emits [simp]: "emits b (emits a s) = emits (a @ b) s"
  by (simp add: emits_def)

lemma emits_attr [simp]:
  "finger (emits es s) = finger s"
  "finger_dimension (emits es s) = finger_dimension s"
  "offset_dimension (emits es s) = offset_dimension s"
  "finger_cut (emits es s) = finger_cut s"
  "finger_pattern (emits es s) = finger_pattern s"
  "left_corner (emits es s) = left_corner s"
  "right_corner (emits es s) = right_corner s"
  "corner_cut (emits es s) = corner_cut s"
  "corner_pattern (emits es s) = corner_pattern s"
  "left_dimension (emits es s) = left_dimension s"
  "right_dimension (emits es s) = right_dimension s"
  by (simp_all add: emits_def)

lemma duplicate_no_primary:
  "duplicate en fm nm fs q d sq None secondary b s = (Inl PrimaryAxisMissing, s)"
  by (simp add: duplicate_def)

lemma duplicate_invalid_primary:
  "\<not> isValid en (trace s) p \<Longrightarrow>
   duplicate en fm nm fs q d sq (Some p) secondary b s = (Inl PrimaryAxisMissing, s)"
  by (simp add: duplicate_def)

lemma duplicate_no_secondary:
  "isValid en (trace s) p \<Longrightarrow>
   duplicate en fm nm fs q d sq (Some p) None b s =
     (Inl AttributeError,
      emits [PatternsCreateInput b fs p (createByReal q) (createByReal d) EDT] s)"
  by (simp add: duplicate_def Let_def emit_emits)

lemma duplicate_ok:
  "isValid en (trace s) p \<Longrightarrow>
   duplicate en fm nm fs q d sq (Some p) (Some c) b s =
     (Inr (PatternFeature (length (trace s) + 2)),
      emits [PatternsCreateInput b fs p (createByReal q) (createByReal d) EDT,
             if distance (params fm) > 0 \<and>
                isValid en (trace s @ [PatternsCreateInput b fs p (createByReal q)
                                         (createByReal d) EDT]) c
             then SetDirectionTwo (PatternInput (length (trace s))) c (createByReal sq)
                    (createByReal (distance (params fm) - depth (params fm)))
             else MessageBox (''secondary valid: '' @ format_bool
                    (isValid en (trace s @ [PatternsCreateInput b fs p (createByReal q)
                                              (createByReal d) EDT]) c)),
             PatternsAdd (PatternInput (length (trace s))),
             SetName (NamedFeature (PatternFeature (length (trace s) + 2))) nm] s)"
  by (simp add: duplicate_def Let_def emit_emits)

lemma constrain_finger_eq:
  "finger s = Some sf \<Longrightarrow>
   constrain_finger en fm sk fng s =
     (Inr (),
      (emits [(if is_vertical (border fm) then AddVertical else AddHorizontal) sk (Line sf Bottom),
              (if is_vertical (border fm) then AddVertical else AddHorizontal) sk (Line sf Top),
              (if is_vertical (border fm) then AddHorizontal else AddVertical) sk (Line sf Left),
              (if is_vertical (border fm) then AddHorizontal else AddVertical) sk (Line sf Right),
              if is_vertical (border fm)
              then AddDistanceDimension sk (Point fng Bottom Left) (Point fng Top Left)
                     VerticalDimension
                     (create (coord_x (geometry en (trace s) (Point fng Bottom Left)) - 1 / 2)
                             (coord_y (geometry en (trace s) (Point fng Bottom Left)) + 1 / 2) 0)
              else AddDistanceDimension sk (Point fng Bottom Left) (Point fng Bottom Right)
                     HorizontalDimension
                     (create (coord_x (geometry en (trace s) (Point fng Bottom Left)) + 1 / 2)
                             (coord_y (geometry en (trace s) (Point fng Bottom Left)) - 1 / 2) 0),
              if is_vertical (border fm)
              then AddDistanceDimension sk (Point fng Bottom Left) (Point Border Bottom Left)
                     VerticalDimension
                     (create (coord_x (geometry en (trace s) (Point fng Bottom Left)) - 1 / 2)
                             (coord_y (geometry en (trace s) (Point fng Bottom Left)) + 1 / 2) 0)
              else AddDistanceDimension sk (Point fng Bottom Left) (Point Border Bottom Left)
                     HorizontalDimension
                     (create (coord_x (geometry en (trace s) (Point fng Bottom Left)) + 1 / 2)
                             (coord_y (geometry en (trace s) (Point fng Bottom Left)) - 1 / 2) 0),
              if is_vertical (border fm)
              then AddCoincident sk (Point fng Bottom Right) (LineEntity (Line Border Right))
              else AddCoincident sk (Point fng Bottom Left) (LineEntity (Line Border Bottom)),
              if is_vertical (border fm)
              then AddCoincident sk (Point fng Top Left) (LineEntity (Line Border Left))
              else AddCoincident sk (Point fng Top Right) (LineEntity (Line Border Top))] s)
        \<lparr>finger_dimension := Some (Dimension (length (trace s) + 4)),
         offset_dimension := Some (Dimension (length (trace s) + 5))\<rparr>)"
  by (simp add: constrain_finger_def Let_def emit_def emits_def)


lemma emits_update [simp]:
  "emits es (s\<lparr>finger := a\<rparr>) = (emits es s)\<lparr>finger := a\<rparr>"
  "emits es (s\<lparr>finger_dimension := b\<rparr>) = (emits es s)\<lparr>finger_dimension := b\<rparr>"
  "emits es (s\<lparr>offset_dimension := b\<rparr>) = (emits es s)\<lparr>offset_dimension := b\<rparr>"
  "emits es (s\<lparr>finger_cut := c\<rparr>) = (emits es s)\<lparr>finger_cut := c\<rparr>"
  "emits es (s\<lparr>finger_pattern := c\<rparr>) = (emits es s)\<lparr>finger_pattern := c\<rparr>"
  "emits es (s\<lparr>left_corner := a\<rparr>) = (emits es s)\<lparr>left_corner := a\<rparr>"
  "emits es (s\<lparr>right_corner := a\<rparr>) = (emits es s)\<lparr>right_corner := a\<rparr>"
  "emits es (s\<lparr>corner_cut := c\<rparr>) = (emits es s)\<lparr>corner_cut := c\<rparr>"
  "emits es (s\<lparr>corner_pattern := c\<rparr>) = (emits es s)\<lparr>corner_pattern := c\<rparr>"
  "emits es (s\<lparr>left_dimension := b\<rparr>) = (emits es s)\<lparr>left_dimension := b\<rparr>"
  "emits es (s\<lparr>right_dimension := b\<rparr>) = (emits es s)\<lparr>right_dimension := b\<rparr>"
  by (simp_all add: emits_def)

lemma draw_finger_cases:
  "\<exists>s4 cut.
     draw_finger en fm sk ex b primary secondary s =
       (case duplicate en fm (name fm @ '' Finger Duplicate Pattern'')
               [cut] (notches (params fm))
               (pattern_distance (params fm)) (interior_value (inputs fm) + 2)
               primary secondary b s4 of
          (Inl e, s5) \<Rightarrow> (Inl e, s5)
        | (Inr pat, s5) \<Rightarrow> (Inr (), s5\<lparr>finger_pattern := Some pat\<rparr>)) \<and>
     cut = ExtrudeFeature (length (trace s) + 12) \<and>
     (\<exists>evs. trace s4 = trace s @ evs \<and>
        map step_of evs = finger_cut_steps) \<and>
     finger_dimension s4 = Some (Dimension (length (trace s) + 5)) \<and>
     offset_dimension s4 = Some (Dimension (length (trace s) + 6)) \<and>
     finger_cut s4 = Some cut \<and>
     left_corner s4 = left_corner s \<and> right_corner s4 = right_corner s \<and>
     corner_cut s4 = corner_cut s \<and> corner_pattern s4 = corner_pattern s \<and>
     left_dimension s4 = left_dimension s \<and> right_dimension s4 = right_dimension s"
proof -
  let ?fng = "Rectangle (length (trace s))"
  let ?start = "next_point en (geometry en (trace s) (Point Border Bottom Left))
                  (start (params fm)) 0 (is_vertical (border fm))"
  let ?s1 = "(emits [AddTwoPointRectangle sk ?start
                (next_point en ?start (finger_length (params fm)) (width (border fm))
                   (is_vertical (border fm)))] s)\<lparr>finger := Some ?fng\<rparr>"
  have f1: "finger ?s1 = Some ?fng" by simp
  show ?thesis
    unfolding draw_finger_def Let_def
    apply (simp only: emit_emits constrain_finger_eq [OF f1] extrude_eq prod.case sum.case)
    apply (rule exI)+
    apply (intro conjI)
               apply (rule refl)
              apply (simp_all add: numeral_eq_Suc finger_cut_steps_def)
    done
qed


lemma attrs_emits [simp]:
  "finger_attrs (emits es s) = finger_attrs s"
  "corner_attrs (emits es s) = corner_attrs s"
  by (simp_all add: finger_attrs_def corner_attrs_def)

lemma duplicate_outcomes:
  assumes d: "d = duplicate en fm nm fs q d' sq primary secondary b s"
  shows "(fst d = Inl PrimaryAxisMissing \<and> snd d = s \<and>
      (primary = None \<or> (\<exists>p. primary = Some p \<and> \<not> isValid en (trace s) p))) \<or>
   (fst d = Inl AttributeError \<and> secondary = None \<and>
      finger_attrs (snd d) = finger_attrs s \<and> corner_attrs (snd d) = corner_attrs s \<and>
      (\<exists>evs. trace (snd d) = trace s @ evs \<and> map step_of evs = [PatternDuplicate])) \<or>
   (fst d = Inr (PatternFeature (length (trace s) + 2)) \<and> secondary \<noteq> None \<and>
      finger_attrs (snd d) = finger_attrs s \<and> corner_attrs (snd d) = corner_attrs s \<and>
      (\<exists>evs. trace (snd d) = trace s @ evs \<and>
           map step_of evs = pattern_steps))"
proof (cases primary)
  case None
  then show ?thesis by (simp add: d duplicate_no_primary)
next
  case (Some p)
  show ?thesis
  proof (cases "isValid en (trace s) p")
    case False
    with Some show ?thesis by (simp add: d duplicate_invalid_primary)
  next
    case True
    show ?thesis
    proof (cases secondary)
      case None
      with Some True show ?thesis by (simp add: d duplicate_no_secondary)
    next
      case (Some c)
      with \<open>primary = Some p\<close> True show ?thesis
        by (simp add: d duplicate_ok numeral_eq_Suc pattern_steps_def)
    qed
  qed
qed


lemma draw_finger_outcomes:
  assumes r: "r = draw_finger en fm sk ex b primary secondary s"
  shows "finger_dimension (snd r) = Some (Dimension (length (trace s) + 5)) \<and>
     offset_dimension (snd r) = Some (Dimension (length (trace s) + 6)) \<and>
     finger_cut (snd r) = Some (ExtrudeFeature (length (trace s) + 12)) \<and>
     corner_attrs (snd r) = corner_attrs s \<and>
     ((fst r = Inl PrimaryAxisMissing \<and>
        (primary = None \<or> (\<exists>p t. primary = Some p \<and> \<not> isValid en t p)) \<and>
        (\<exists>evs. trace (snd r) = trace s @ evs \<and>
           map step_of evs = finger_cut_steps)) \<or>
      (fst r = Inl AttributeError \<and> secondary = None \<and>
        (\<exists>evs. trace (snd r) = trace s @ evs \<and>
           map step_of evs = finger_cut_steps @
             [PatternDuplicate])) \<or>
      (fst r = Inr () \<and> secondary \<noteq> None \<and>
        finger_pattern (snd r) = Some (PatternFeature (length (trace s) + 16)) \<and>
        (\<exists>evs. trace (snd r) = trace s @ evs \<and>
           map step_of evs = finger_cut_steps @
             pattern_steps)))"
proof -
  from draw_finger_cases [of en fm sk ex b primary secondary s]
  obtain s4 where "\<exists>cut0.
     draw_finger en fm sk ex b primary secondary s =
       (case duplicate en fm (name fm @ '' Finger Duplicate Pattern'')
               [cut0] (notches (params fm))
               (pattern_distance (params fm)) (interior_value (inputs fm) + 2)
               primary secondary b s4 of
          (Inl e, s5) \<Rightarrow> (Inl e, s5)
        | (Inr pat, s5) \<Rightarrow> (Inr (), s5\<lparr>finger_pattern := Some pat\<rparr>)) \<and>
     cut0 = ExtrudeFeature (length (trace s) + 12) \<and>
     (\<exists>evs. trace s4 = trace s @ evs \<and>
        map step_of evs = finger_cut_steps) \<and>
     finger_dimension s4 = Some (Dimension (length (trace s) + 5)) \<and>
     offset_dimension s4 = Some (Dimension (length (trace s) + 6)) \<and>
     finger_cut s4 = Some cut0 \<and>
     left_corner s4 = left_corner s \<and> right_corner s4 = right_corner s \<and>
     corner_cut s4 = corner_cut s \<and> corner_pattern s4 = corner_pattern s \<and>
     left_dimension s4 = left_dimension s \<and> right_dimension s4 = right_dimension s" ..
  then obtain cut0 where raw:
     "draw_finger en fm sk ex b primary secondary s =
       (case duplicate en fm (name fm @ '' Finger Duplicate Pattern'')
               [cut0] (notches (params fm))
               (pattern_distance (params fm)) (interior_value (inputs fm) + 2)
               primary secondary b s4 of
          (Inl e, s5) \<Rightarrow> (Inl e, s5)
        | (Inr pat, s5) \<Rightarrow> (Inr (), s5\<lparr>finger_pattern := Some pat\<rparr>)) \<and>
     cut0 = ExtrudeFeature (length (trace s) + 12) \<and>
     (\<exists>evs. trace s4 = trace s @ evs \<and>
        map step_of evs = finger_cut_steps) \<and>
     finger_dimension s4 = Some (Dimension (length (trace s) + 5)) \<and>
     offset_dimension s4 = Some (Dimension (length (trace s) + 6)) \<and>
     finger_cut s4 = Some cut0 \<and>
     left_corner s4 = left_corner s \<and> right_corner s4 = right_corner s \<and>
     corner_cut s4 = corner_cut s \<and> corner_pattern s4 = corner_pattern s \<and>
     left_dimension s4 = left_dimension s \<and> right_dimension s4 = right_dimension s"
    ..
  from raw have
    eq: "draw_finger en fm sk ex b primary secondary s =
       (case duplicate en fm (name fm @ '' Finger Duplicate Pattern'')
               [cut0] (notches (params fm))
               (pattern_distance (params fm)) (interior_value (inputs fm) + 2)
               primary secondary b s4 of
          (Inl e, s5) \<Rightarrow> (Inl e, s5)
        | (Inr pat, s5) \<Rightarrow> (Inr (), s5\<lparr>finger_pattern := Some pat\<rparr>))"
    and c0: "cut0 = ExtrudeFeature (length (trace s) + 12)"
    and tr: "\<exists>evs. trace s4 = trace s @ evs \<and>
        map step_of evs = finger_cut_steps"
    and at: "finger_dimension s4 = Some (Dimension (length (trace s) + 5))"
      "offset_dimension s4 = Some (Dimension (length (trace s) + 6))"
      "finger_cut s4 = Some cut0"
      "left_corner s4 = left_corner s" "right_corner s4 = right_corner s"
      "corner_cut s4 = corner_cut s" "corner_pattern s4 = corner_pattern s"
      "left_dimension s4 = left_dimension s" "right_dimension s4 = right_dimension s"
    by - (elim conjE, assumption)+
  define d where "d = duplicate en fm (name fm @ '' Finger Duplicate Pattern'')
               [cut0] (notches (params fm))
               (pattern_distance (params fm)) (interior_value (inputs fm) + 2)
               primary secondary b s4"
  from tr obtain evs where evs: "trace s4 = trace s @ evs"
    "map step_of evs = finger_cut_steps"
    by blast
  have "length (map step_of evs) = 14"
    unfolding evs(2) by (simp add: finger_cut_steps_def)
  then have len: "length evs = 14" by simp
  have rd: "r = (case d of (Inl e, s5) \<Rightarrow> (Inl e, s5)
        | (Inr pat, s5) \<Rightarrow> (Inr (), s5\<lparr>finger_pattern := Some pat\<rparr>))"
    using r eq by (simp add: d_def)
  have ca: "corner_attrs s4 = corner_attrs s"
    using at by (simp add: corner_attrs_def)
  consider
    (pam) "fst d = Inl PrimaryAxisMissing" "snd d = s4"
      "primary = None \<or> (\<exists>p. primary = Some p \<and> \<not> isValid en (trace s4) p)"
  | (ae) "fst d = Inl AttributeError" "secondary = None"
      "finger_attrs (snd d) = finger_attrs s4" "corner_attrs (snd d) = corner_attrs s4"
      "\<exists>es. trace (snd d) = trace s4 @ es \<and> map step_of es = [PatternDuplicate]"
  | (ok) "fst d = Inr (PatternFeature (length (trace s4) + 2))" "secondary \<noteq> None"
      "finger_attrs (snd d) = finger_attrs s4" "corner_attrs (snd d) = corner_attrs s4"
      "\<exists>es. trace (snd d) = trace s4 @ es \<and> map step_of es = pattern_steps"
    using duplicate_outcomes [OF d_def] by blast
  then show ?thesis
  proof cases
    case pam
    then have "r = (Inl PrimaryAxisMissing, s4)"
      using rd by (cases d) simp
    then have rr: "fst r = Inl PrimaryAxisMissing" "snd r = s4" by simp_all
    from pam(3) have pc: "primary = None \<or> (\<exists>p t. primary = Some p \<and> \<not> isValid en t p)"
      by blast
    from evs have ex: "\<exists>evs. trace s4 = trace s @ evs \<and>
        map step_of evs = finger_cut_steps"
      by blast
    show ?thesis
      unfolding rr using pc ex at(1,2,3) c0 ca by simp
  next
    case ae
    then have rr: "fst r = Inl AttributeError" "snd r = snd d"
      using rd by (cases d; simp)+
    from ae(5) obtain es where
      "trace (snd d) = trace s4 @ es \<and> map step_of es = [PatternDuplicate]" ..
    with evs have "trace (snd r) = trace s @ (evs @ es) \<and> map step_of (evs @ es) =
        finger_cut_steps @ [PatternDuplicate]"
      using rr by simp
    then have ex: "\<exists>evs. trace (snd r) = trace s @ evs \<and> map step_of evs =
        finger_cut_steps @ [PatternDuplicate]"
      by (rule exI)
    from ae(3) at c0 rr have "finger_dimension (snd r) = Some (Dimension (length (trace s) + 5)) \<and>
     offset_dimension (snd r) = Some (Dimension (length (trace s) + 6)) \<and>
     finger_cut (snd r) = Some (ExtrudeFeature (length (trace s) + 12))"
      by (simp add: finger_attrs_def)
    with ex rr ae(2) ae(4) ca show ?thesis by simp
  next
    case ok
    then have rr: "fst r = Inr ()"
      "snd r = (snd d)\<lparr>finger_pattern := Some (PatternFeature (length (trace s4) + 2))\<rparr>"
      using rd by (cases d; simp)+
    from ok(5) obtain es where
      "trace (snd d) = trace s4 @ es \<and> map step_of es = pattern_steps" ..
    with evs have "trace (snd r) = trace s @ (evs @ es) \<and> map step_of (evs @ es) =
        finger_cut_steps @
        pattern_steps"
      using rr by simp
    then have ex: "\<exists>evs. trace (snd r) = trace s @ evs \<and> map step_of evs =
        finger_cut_steps @
        pattern_steps"
      by (rule exI)
    from ok(3) at c0 rr have fa: "finger_dimension (snd r) = Some (Dimension (length (trace s) + 5)) \<and>
     offset_dimension (snd r) = Some (Dimension (length (trace s) + 6)) \<and>
     finger_cut (snd r) = Some (ExtrudeFeature (length (trace s) + 12))"
      by (simp add: finger_attrs_def)
    have fp: "finger_pattern (snd r) = Some (PatternFeature (length (trace s) + 16))"
      using rr evs(1) len by simp
    have "corner_attrs (snd r) = corner_attrs s"
      using rr ok(4) ca by (simp add: corner_attrs_def)
    with ex rr ok(2) fa fp show ?thesis by simp
  qed
qed


lemma constrain_vertical_corners_eq:
  "constrain_vertical_corners en sk lc rc s = constrain_horizontal_corners en sk lc rc s"
  by (simp add: constrain_vertical_corners_def constrain_horizontal_corners_def)

lemma constrain_horizontal_corners_facts:
  "(\<exists>evs. trace (constrain_horizontal_corners en sk lc rc s) = trace s @ evs \<and>
      map step_of evs = corner_constrain_steps) \<and>
   finger_attrs (constrain_horizontal_corners en sk lc rc s) = finger_attrs s \<and>
   left_corner (constrain_horizontal_corners en sk lc rc s) = left_corner s"
  by (simp add: constrain_horizontal_corners_def Let_def emit_emits finger_attrs_def
        corner_constrain_steps_def numeral_eq_Suc)

lemma draw_corner_cases:
  "\<exists>s4 cut lc rc.
     draw_corner en fm sk ex b primary secondary s =
       (case duplicate en fm (name fm @ '' Corner Duplicate Pattern'') [cut] 1 0 2
               primary secondary b s4 of
          (Inl e, s5) \<Rightarrow> (Inl e, s5)
        | (Inr pat, s5) \<Rightarrow>
            if is_vertical (border fm)
            then (Inr (), constrain_vertical_corners en sk lc rc
                            (s5\<lparr>corner_pattern := Some pat\<rparr>))
            else (Inr (), constrain_horizontal_corners en sk lc rc
                            (s5\<lparr>corner_pattern := Some pat\<rparr>))) \<and>
     (\<exists>evs. trace s4 = trace s @ evs \<and> map step_of evs = corner_cut_steps) \<and>
     finger_attrs s4 = finger_attrs s \<and>
     left_corner s4 = Some (Rectangle (length (trace s)))"
  unfolding draw_corner_def Let_def
  apply (simp only: draw_left_corner_def draw_right_corner_def Let_def emit_emits extrude_eq
           prod.case)
  apply (rule exI)+
  apply (intro conjI)
     apply (rule refl)
    apply (simp_all add: numeral_eq_Suc corner_cut_steps_def finger_attrs_def)
  done


lemma draw_corner_outcomes:
  assumes r: "r = draw_corner en fm sk ex b primary secondary s"
  shows "finger_attrs (snd r) = finger_attrs s \<and>
     left_corner (snd r) = Some (Rectangle (length (trace s))) \<and>
     ((fst r = Inl PrimaryAxisMissing \<and>
        (primary = None \<or> (\<exists>p t. primary = Some p \<and> \<not> isValid en t p)) \<and>
        (\<exists>evs. trace (snd r) = trace s @ evs \<and> map step_of evs = corner_cut_steps)) \<or>
      (fst r = Inl AttributeError \<and> secondary = None) \<or>
      (fst r = Inr () \<and>
        (\<exists>evs. trace (snd r) = trace s @ evs \<and>
           map step_of evs = corner_cut_steps @ pattern_steps @ corner_constrain_steps)))"
proof -
  from draw_corner_cases [of en fm sk ex b primary secondary s]
  obtain s4 cut lc rc where raw:
    "draw_corner en fm sk ex b primary secondary s =
       (case duplicate en fm (name fm @ '' Corner Duplicate Pattern'') [cut] 1 0 2
               primary secondary b s4 of
          (Inl e, s5) \<Rightarrow> (Inl e, s5)
        | (Inr pat, s5) \<Rightarrow>
            if is_vertical (border fm)
            then (Inr (), constrain_vertical_corners en sk lc rc
                            (s5\<lparr>corner_pattern := Some pat\<rparr>))
            else (Inr (), constrain_horizontal_corners en sk lc rc
                            (s5\<lparr>corner_pattern := Some pat\<rparr>))) \<and>
     (\<exists>evs. trace s4 = trace s @ evs \<and> map step_of evs = corner_cut_steps) \<and>
     finger_attrs s4 = finger_attrs s \<and>
     left_corner s4 = Some (Rectangle (length (trace s)))"
    by (elim exE)
  define d where "d = duplicate en fm (name fm @ '' Corner Duplicate Pattern'') [cut] 1 0 2
               primary secondary b s4"
  have rd: "r = (case d of
          (Inl e, s5) \<Rightarrow> (Inl e, s5)
        | (Inr pat, s5) \<Rightarrow>
            (Inr (), constrain_horizontal_corners en sk lc rc
                            (s5\<lparr>corner_pattern := Some pat\<rparr>)))"
    using r raw
    by (simp add: d_def constrain_vertical_corners_eq split: prod.split sum.split)
  from raw have tr: "\<exists>evs. trace s4 = trace s @ evs \<and> map step_of evs = corner_cut_steps"
    and fa: "finger_attrs s4 = finger_attrs s"
    and lc: "left_corner s4 = Some (Rectangle (length (trace s)))"
    by simp_all
  from tr obtain evs where evs: "trace s4 = trace s @ evs \<and> map step_of evs = corner_cut_steps" ..
  consider
    (pam) "fst d = Inl PrimaryAxisMissing" "snd d = s4"
      "primary = None \<or> (\<exists>p. primary = Some p \<and> \<not> isValid en (trace s4) p)"
  | (ae) "fst d = Inl AttributeError" "secondary = None"
      "finger_attrs (snd d) = finger_attrs s4" "corner_attrs (snd d) = corner_attrs s4"
  | (ok) "fst d = Inr (PatternFeature (length (trace s4) + 2))"
      "finger_attrs (snd d) = finger_attrs s4" "corner_attrs (snd d) = corner_attrs s4"
      "\<exists>es. trace (snd d) = trace s4 @ es \<and> map step_of es = pattern_steps"
    using duplicate_outcomes [OF d_def] by blast
  then show ?thesis
  proof cases
    case pam
    then have rr: "fst r = Inl PrimaryAxisMissing" "snd r = s4"
      using rd by (cases d; simp)+
    from pam(3) have pc: "primary = None \<or> (\<exists>p t. primary = Some p \<and> \<not> isValid en t p)"
      by blast
    show ?thesis
      unfolding rr using pc tr fa lc by simp
  next
    case ae
    then have rr: "fst r = Inl AttributeError" "snd r = snd d"
      using rd by (cases d; simp)+
    have "left_corner (snd r) = Some (Rectangle (length (trace s)))"
      using rr ae(4) lc by (simp add: corner_attrs_def)
    then show ?thesis
      using rr ae(2,3) fa by simp
  next
    case ok
    define s6 where "s6 = (snd d)\<lparr>corner_pattern := Some (PatternFeature (length (trace s4) + 2))\<rparr>"
    have rr: "fst r = Inr ()" "snd r = constrain_horizontal_corners en sk lc rc s6"
      using rd ok(1) by (cases d; simp add: s6_def)+
    from ok(4) obtain es where
      es: "trace (snd d) = trace s4 @ es \<and> map step_of es = pattern_steps" ..
    from constrain_horizontal_corners_facts [of en sk lc rc s6]
    have cf: "\<exists>evs. trace (snd r) = trace s6 @ evs \<and> map step_of evs = corner_constrain_steps"
      and cfa: "finger_attrs (snd r) = finger_attrs s6"
      and clc: "left_corner (snd r) = left_corner s6"
      unfolding rr by simp_all
    from cf obtain cs where
      cs: "trace (snd r) = trace s6 @ cs \<and> map step_of cs = corner_constrain_steps" ..
    have "trace (snd r) = trace s @ (evs @ es @ cs) \<and>
        map step_of (evs @ es @ cs) = corner_cut_steps @ pattern_steps @ corner_constrain_steps"
      using evs es cs by (simp add: s6_def)
    then have ex: "\<exists>evs. trace (snd r) = trace s @ evs \<and>
        map step_of evs = corner_cut_steps @ pattern_steps @ corner_constrain_steps"
      by (rule exI)
    have "finger_attrs (snd r) = finger_attrs s"
      using cfa ok(2) fa by (simp add: s6_def finger_attrs_def)
    moreover have "left_corner (snd r) = Some (Rectangle (length (trace s)))"
      using clc ok(3) lc by (simp add: s6_def corner_attrs_def)
    ultimately show ?thesis using ex rr(1) by simp
  qed
qed


lemma draw_tail:
  assumes fa: "finger_attrs s2 = (Some fd, Some od, Some fc, Some fp)"
    and t: "t = (case (if \<not> parametric_flag (inputs fm) then call_modifier fm s2
                        else (Inr (), s2)) of
                   (Inl e, s3) \<Rightarrow> (Inl e, s3)
                 | (Inr u, s3) \<Rightarrow>
                     (Inr (), emit (SetName (NamedGroup (length (trace s3)))
                                      (name fm @ '' Finger Group''))
                                (emit (TimelineGroupsAdd start_mp
                                         (markerPosition en (trace s3) - 1)) s3)))"
  shows "fst t = Inr () \<and> finger_attrs (snd t) = finger_attrs s2 \<and>
     corner_attrs (snd t) = corner_attrs s2 \<and>
     (\<exists>tl. trace (snd t) = trace s2 @ modifier_events fm (snd t) @ tl \<and>
        map step_of tl = [TimelineGroup, TimelineGroup])"
proof -
  from fa have a: "finger_dimension s2 = Some fd" "offset_dimension s2 = Some od"
    "finger_cut s2 = Some fc" "finger_pattern s2 = Some fp"
    by (simp_all add: finger_attrs_def)
  show ?thesis
  proof (cases "parametric_flag (inputs fm)")
    case True
    then have "t = (Inr (), emits [TimelineGroupsAdd start_mp (markerPosition en (trace s2) - 1),
        SetName (NamedGroup (length (trace s2))) (name fm @ '' Finger Group'')] s2)"
      using t by (simp add: emit_emits)
    then show ?thesis
      using True a by (simp add: modifier_events_def)
  next
    case False
    let ?m = "ModifierCall (modifier fm) (alias_name fm) fd od fc fp
                  (corner_cut s2) (corner_pattern s2) (left_dimension s2) (right_dimension s2)"
    from False have "t = (Inr (), emits [?m, TimelineGroupsAdd start_mp
          (markerPosition en (trace s2 @ [?m]) - 1),
        SetName (NamedGroup (length (trace s2) + 1)) (name fm @ '' Finger Group'')] s2)"
      using t a by (simp add: emit_emits call_modifier_def)
    then show ?thesis
      using False a by (simp add: modifier_events_def)
  qed
qed


lemma draw_outcomes:
  assumes r: "r = draw en fm sk s"
  shows "finger_dimension (snd r) = Some (Dimension (length (trace s) + 5)) \<and>
     offset_dimension (snd r) = Some (Dimension (length (trace s) + 6)) \<and>
     finger_cut (snd r) = Some (ExtrudeFeature (length (trace s) + 12)) \<and>
     ((fst r = Inl PrimaryAxisMissing \<and> corner_attrs (snd r) = corner_attrs s \<and>
         (reference_line (border fm) = None \<or>
          (\<exists>p t. reference_line (border fm) = Some p \<and> \<not> isValid en t p)) \<and>
         (\<exists>evs. trace (snd r) = trace s @ evs \<and> map step_of evs = finger_cut_steps)) \<or>
      (fst r = Inl PrimaryAxisMissing \<and> corner_wanted fm \<and>
         left_corner (snd r) = Some (Rectangle (length (trace s) + 18)) \<and>
         (reference_line (border fm) = None \<or>
          (\<exists>p t. reference_line (border fm) = Some p \<and> \<not> isValid en t p)) \<and>
         (\<exists>evs. trace (snd r) = trace s @ evs \<and>
            map step_of evs = finger_cut_steps @ pattern_steps @ corner_cut_steps)) \<or>
      (fst r = Inl AttributeError \<and> corner_attrs (snd r) = corner_attrs s \<and>
         perpendicular_edge en = None \<and>
         (\<exists>evs. trace (snd r) = trace s @ evs \<and>
            map step_of evs = finger_cut_steps @ [PatternDuplicate])) \<or>
      (fst r = Inr () \<and> perpendicular_edge en \<noteq> None \<and>
         finger_pattern (snd r) = Some (PatternFeature (length (trace s) + 16)) \<and>
         (if corner_wanted fm
          then left_corner (snd r) = Some (Rectangle (length (trace s) + 18))
          else corner_attrs (snd r) = corner_attrs s) \<and>
         (\<exists>evs tl. trace (snd r) = trace s @ evs @ modifier_events fm (snd r) @ tl \<and>
            map step_of evs = finger_cut_steps @ pattern_steps @
              (if corner_wanted fm
               then corner_cut_steps @ pattern_steps @ corner_constrain_steps else []) \<and>
            map step_of tl = [TimelineGroup, TimelineGroup])))"
proof -
  let ?b = "selected_body (inputs fm)"
  let ?p = "reference_line (border fm)"
  let ?q = "perpendicular_edge en"
  define f where "f = draw_finger en fm sk ?b ?b ?p ?q s"
  define c where "c = (if corner_wanted fm then draw_corner en fm sk ?b ?b ?p ?q (snd f)
                       else (Inr (), snd f))"
  define tail where "tail = (\<lambda>s2.
     case (if \<not> parametric_flag (inputs fm) then call_modifier fm s2 else (Inr (), s2)) of
       (Inl e, s3) \<Rightarrow> (Inl e, s3)
     | (Inr u, s3) \<Rightarrow>
         (Inr (), emit (SetName (NamedGroup (length (trace s3))) (name fm @ '' Finger Group''))
                    (emit (TimelineGroupsAdd (markerPosition en (trace s) - 1)
                             (markerPosition en (trace s3) - 1)) s3)))"
  have rf: "r = (case f of
       (Inl e, s1) \<Rightarrow> (Inl e, s1)
     | (Inr u, s1) \<Rightarrow>
         (case c of (Inl e, s2) \<Rightarrow> (Inl e, s2) | (Inr u, s2) \<Rightarrow> tail s2))"
  proof (cases f)
    case (Pair a s1)
    then show ?thesis
      unfolding r draw_def Let_def f_def [symmetric] c_def tail_def corner_wanted_def
      by (cases a) simp_all
  qed
  note fo = draw_finger_outcomes [OF f_def]
  from fo have fa: "finger_dimension (snd f) = Some (Dimension (length (trace s) + 5))"
    "offset_dimension (snd f) = Some (Dimension (length (trace s) + 6))"
    "finger_cut (snd f) = Some (ExtrudeFeature (length (trace s) + 12))"
    "corner_attrs (snd f) = corner_attrs s"
    by simp_all
  from fo consider
    (pam) "fst f = Inl PrimaryAxisMissing"
      "?p = None \<or> (\<exists>p t. ?p = Some p \<and> \<not> isValid en t p)"
      "\<exists>evs. trace (snd f) = trace s @ evs \<and> map step_of evs = finger_cut_steps"
  | (ae) "fst f = Inl AttributeError" "?q = None"
      "\<exists>evs. trace (snd f) = trace s @ evs \<and>
         map step_of evs = finger_cut_steps @ [PatternDuplicate]"
  | (ok) "fst f = Inr ()" "?q \<noteq> None"
      "finger_pattern (snd f) = Some (PatternFeature (length (trace s) + 16))"
      "\<exists>evs. trace (snd f) = trace s @ evs \<and>
         map step_of evs = finger_cut_steps @ pattern_steps"
    by (elim conjE disjE) simp_all
  then show ?thesis
  proof cases
    case pam
    then have rr: "fst r = Inl PrimaryAxisMissing" "snd r = snd f"
      using rf by (cases f; simp)+
    show ?thesis unfolding rr using fa pam(2,3) by simp
  next
    case ae
    then have rr: "fst r = Inl AttributeError" "snd r = snd f"
      using rf by (cases f; simp)+
    show ?thesis unfolding rr using fa ae(2,3) by simp
  next
    case ok
    then have rc: "r = (case c of (Inl e, s2) \<Rightarrow> (Inl e, s2) | (Inr u, s2) \<Rightarrow> tail s2)"
      using rf by (cases f; simp)
    from ok(4) obtain evs where
      evs: "trace (snd f) = trace s @ evs \<and> map step_of evs = finger_cut_steps @ pattern_steps" ..
    have "length evs = length (finger_cut_steps @ pattern_steps)"
      using evs by (metis length_map)
    then have "length evs = 18"
      by (simp add: finger_cut_steps_def pattern_steps_def)
    then have len: "length (trace (snd f)) = length (trace s) + 18"
      using evs by simp
    have ffa: "finger_attrs (snd f) = (Some (Dimension (length (trace s) + 5)),
        Some (Dimension (length (trace s) + 6)), Some (ExtrudeFeature (length (trace s) + 12)),
        Some (PatternFeature (length (trace s) + 16)))"
      using fa ok(3) by (simp add: finger_attrs_def)
    show ?thesis
    proof (cases "corner_wanted fm")
      case False
      then have cc: "c = (Inr (), snd f)" by (simp add: c_def)
      then have rt: "r = tail (snd f)" using rc by simp
      note dt = draw_tail [OF ffa rt [unfolded tail_def]]
      from dt have "\<exists>tl. trace (snd r) = trace (snd f) @ modifier_events fm (snd r) @ tl \<and>
          map step_of tl = [TimelineGroup, TimelineGroup]"
        by (elim conjE)
      then obtain tl where
        tl: "trace (snd r) = trace (snd f) @ modifier_events fm (snd r) @ tl \<and>
          map step_of tl = [TimelineGroup, TimelineGroup]" ..
      have "trace (snd r) = trace s @ evs @ modifier_events fm (snd r) @ tl \<and>
            map step_of evs = finger_cut_steps @ pattern_steps @
              (if corner_wanted fm
               then corner_cut_steps @ pattern_steps @ corner_constrain_steps else []) \<and>
            map step_of tl = [TimelineGroup, TimelineGroup]"
        using tl evs False by simp
      then have ex: "\<exists>evs tl. trace (snd r) = trace s @ evs @ modifier_events fm (snd r) @ tl \<and>
            map step_of evs = finger_cut_steps @ pattern_steps @
              (if corner_wanted fm
               then corner_cut_steps @ pattern_steps @ corner_constrain_steps else []) \<and>
            map step_of tl = [TimelineGroup, TimelineGroup]"
        by (intro exI)
      from dt have "fst r = Inr ()" "finger_attrs (snd r) = finger_attrs (snd f)"
        "corner_attrs (snd r) = corner_attrs (snd f)"
        by simp_all
      with ffa fa(4) have "finger_dimension (snd r) = Some (Dimension (length (trace s) + 5))"
        "offset_dimension (snd r) = Some (Dimension (length (trace s) + 6))"
        "finger_cut (snd r) = Some (ExtrudeFeature (length (trace s) + 12))"
        "finger_pattern (snd r) = Some (PatternFeature (length (trace s) + 16))"
        "corner_attrs (snd r) = corner_attrs s" "fst r = Inr ()"
        by (simp_all add: finger_attrs_def)
      with ex ok(2) False show ?thesis by simp
    next
      case True
      then have cd: "c = draw_corner en fm sk ?b ?b ?p ?q (snd f)" by (simp add: c_def)
      note co = draw_corner_outcomes [OF cd]
      from co have cfa: "finger_attrs (snd c) = finger_attrs (snd f)"
        and clc: "left_corner (snd c) = Some (Rectangle (length (trace s) + 18))"
        using len by simp_all
      from co ok(2) consider
        (cpam) "fst c = Inl PrimaryAxisMissing"
          "?p = None \<or> (\<exists>p t. ?p = Some p \<and> \<not> isValid en t p)"
          "\<exists>cs. trace (snd c) = trace (snd f) @ cs \<and> map step_of cs = corner_cut_steps"
      | (cok) "fst c = Inr ()"
          "\<exists>cs. trace (snd c) = trace (snd f) @ cs \<and>
             map step_of cs = corner_cut_steps @ pattern_steps @ corner_constrain_steps"
        by (elim conjE disjE) simp_all
      then show ?thesis
      proof cases
        case cpam
        then have rr: "fst r = Inl PrimaryAxisMissing" "snd r = snd c"
          using rc by (cases c; simp)+
        from cpam(3) obtain cs where
          cs: "trace (snd c) = trace (snd f) @ cs \<and> map step_of cs = corner_cut_steps" ..
        have "trace (snd c) = trace s @ (evs @ cs) \<and>
            map step_of (evs @ cs) = finger_cut_steps @ pattern_steps @ corner_cut_steps"
          using evs cs by simp
        then have ex: "\<exists>evs. trace (snd c) = trace s @ evs \<and>
            map step_of evs = finger_cut_steps @ pattern_steps @ corner_cut_steps"
          by (rule exI)
        from cfa ffa have "finger_dimension (snd c) = Some (Dimension (length (trace s) + 5))"
          "offset_dimension (snd c) = Some (Dimension (length (trace s) + 6))"
          "finger_cut (snd c) = Some (ExtrudeFeature (length (trace s) + 12))"
          by (simp_all add: finger_attrs_def)
        with ex clc cpam(2) True show ?thesis unfolding rr by simp
      next
        case cok
        then have rt: "r = tail (snd c)" using rc by (cases c; simp)
        from cfa ffa have cffa: "finger_attrs (snd c) = (Some (Dimension (length (trace s) + 5)),
          Some (Dimension (length (trace s) + 6)), Some (ExtrudeFeature (length (trace s) + 12)),
          Some (PatternFeature (length (trace s) + 16)))"
          by simp
        note dt = draw_tail [OF cffa rt [unfolded tail_def]]
        from dt have "\<exists>tl. trace (snd r) = trace (snd c) @ modifier_events fm (snd r) @ tl \<and>
            map step_of tl = [TimelineGroup, TimelineGroup]"
          by (elim conjE)
        then obtain tl where
          tl: "trace (snd r) = trace (snd c) @ modifier_events fm (snd r) @ tl \<and>
            map step_of tl = [TimelineGroup, TimelineGroup]" ..
        from cok(2) obtain cs where
          cs: "trace (snd c) = trace (snd f) @ cs \<and>
             map step_of cs = corner_cut_steps @ pattern_steps @ corner_constrain_steps" ..
        have "trace (snd r) = trace s @ (evs @ cs) @ modifier_events fm (snd r) @ tl \<and>
            map step_of (evs @ cs) = finger_cut_steps @ pattern_steps @
              (if corner_wanted fm
               then corner_cut_steps @ pattern_steps @ corner_constrain_steps else []) \<and>
            map step_of tl = [TimelineGroup, TimelineGroup]"
          using tl evs cs True by simp
        then have ex: "\<exists>evs tl. trace (snd r) = trace s @ evs @ modifier_events fm (snd r) @ tl \<and>
            map step_of evs = finger_cut_steps @ pattern_steps @
              (if corner_wanted fm
               then corner_cut_steps @ pattern_steps @ corner_constrain_steps else []) \<and>
            map step_of tl = [TimelineGroup, TimelineGroup]"
          by (intro exI)
        from dt have "fst r = Inr ()" "finger_attrs (snd r) = finger_attrs (snd c)"
          "corner_attrs (snd r) = corner_attrs (snd c)"
          by simp_all
        with cffa clc have "finger_dimension (snd r) = Some (Dimension (length (trace s) + 5))"
          "offset_dimension (snd r) = Some (Dimension (length (trace s) + 6))"
          "finger_cut (snd r) = Some (ExtrudeFeature (length (trace s) + 12))"
          "finger_pattern (snd r) = Some (PatternFeature (length (trace s) + 16))"
          "left_corner (snd r) = Some (Rectangle (length (trace s) + 18))" "fst r = Inr ()"
          by (simp_all add: finger_attrs_def corner_attrs_def)
        with ex ok(2) True show ?thesis by simp
      qed
    qed
  qed
qed

lemma filter_step_empty:
  assumes "map step_of evs = ks" and "k \<notin> set ks"
  shows "filter (\<lambda>e. step_of e = k) evs = []"
proof -
  have "\<forall>e \<in> set evs. step_of e \<noteq> k"
  proof
    fix e assume "e \<in> set evs"
    then have "step_of e \<in> set (map step_of evs)" by simp
    with assms show "step_of e \<noteq> k" by auto
  qed
  then show ?thesis by (simp add: filter_empty_conv)
qed

lemma draw_completes:
  assumes r: "r = draw en fm sk s"
    and p: "reference_line (border fm) = Some p" and v: "\<And>t. isValid en t p"
    and c: "perpendicular_edge en = Some c"
  shows "fst r = Inr () \<and>
     finger_dimension (snd r) = Some (Dimension (length (trace s) + 5)) \<and>
     offset_dimension (snd r) = Some (Dimension (length (trace s) + 6)) \<and>
     finger_cut (snd r) = Some (ExtrudeFeature (length (trace s) + 12)) \<and>
     finger_pattern (snd r) = Some (PatternFeature (length (trace s) + 16)) \<and>
     (if corner_wanted fm
      then left_corner (snd r) = Some (Rectangle (length (trace s) + 18))
      else corner_attrs (snd r) = corner_attrs s) \<and>
     (\<exists>evs tl. trace (snd r) = trace s @ evs @ modifier_events fm (snd r) @ tl \<and>
        map step_of evs = finger_cut_steps @ pattern_steps @
          (if corner_wanted fm
           then corner_cut_steps @ pattern_steps @ corner_constrain_steps else []) \<and>
        map step_of tl = [TimelineGroup, TimelineGroup])"
proof -
  from draw_outcomes [OF r] p v c show ?thesis
    by (elim conjE disjE) simp_all
qed


lemma draw_returned:
  assumes r: "r = draw en fm sk s" and ret: "fst r = Inr ()"
  shows "finger_dimension (snd r) = Some (Dimension (length (trace s) + 5)) \<and>
     offset_dimension (snd r) = Some (Dimension (length (trace s) + 6)) \<and>
     finger_cut (snd r) = Some (ExtrudeFeature (length (trace s) + 12)) \<and>
     finger_pattern (snd r) = Some (PatternFeature (length (trace s) + 16)) \<and>
     (if corner_wanted fm
      then left_corner (snd r) = Some (Rectangle (length (trace s) + 18))
      else corner_attrs (snd r) = corner_attrs s) \<and>
     (\<exists>evs tl. trace (snd r) = trace s @ evs @ modifier_events fm (snd r) @ tl \<and>
        map step_of evs = finger_cut_steps @ pattern_steps @
          (if corner_wanted fm
           then corner_cut_steps @ pattern_steps @ corner_constrain_steps else []) \<and>
        map step_of tl = [TimelineGroup, TimelineGroup])"
proof -
  from draw_outcomes [OF r] ret show ?thesis
    by (elim conjE disjE) simp_all
qed

lemma steps_of_outcome:
  assumes "trace s' = trace s @ evs"
  shows "steps (new_events s s') = remdups_adj (map step_of evs)"
  using assms by (simp add: steps_def new_events_def)

lemma corner_order:
  assumes r: "r = draw en fm sk (fresh t)"
  shows "\<not> corners_precede_cut (snd r) \<and>
     (left_corner (snd r) \<noteq> None \<longrightarrow>
        offset (params fm) \<noteq> 0 \<and> \<not> tab_first (inputs fm) \<and> corners_follow_cut (snd r))"
proof -
  have n: "corner_attrs (fresh t) = (None, None, None, None, None, None)"
    by (simp add: corner_attrs_def fresh_def)
  from draw_outcomes [OF r] have
    fc: "finger_cut (snd r) = Some (ExtrudeFeature (length (trace (fresh t)) + 12))"
    by simp
  from draw_outcomes [OF r] consider
    (same) "corner_attrs (snd r) = corner_attrs (fresh t)"
  | (drawn) "corner_wanted fm"
      "left_corner (snd r) = Some (Rectangle (length (trace (fresh t)) + 18))"
    by (elim conjE disjE) (simp_all split: if_splits)
  then show ?thesis
  proof cases
    case same
    with n have "left_corner (snd r) = None" by (simp add: corner_attrs_def)
    then show ?thesis by (simp add: corners_precede_cut_def)
  next
    case drawn
    with fc show ?thesis
      by (simp add: corners_precede_cut_def corners_follow_cut_def corner_wanted_def)
  qed
qed

lemma calls_before_cut:
  assumes r: "r = draw en fm sk s"
  shows "map step_of (take 12 (new_events s (snd r))) =
     DrawRectangle # replicate 8 Constrain @ replicate 3 ExtrudeCut"
proof -
  from draw_outcomes [OF r] consider
    (a) "\<exists>evs. trace (snd r) = trace s @ evs \<and> map step_of evs = finger_cut_steps"
  | (b) "\<exists>evs. trace (snd r) = trace s @ evs \<and>
       map step_of evs = finger_cut_steps @ pattern_steps @ corner_cut_steps"
  | (c) "\<exists>evs. trace (snd r) = trace s @ evs \<and>
       map step_of evs = finger_cut_steps @ [PatternDuplicate]"
  | (d) "\<exists>evs tl. trace (snd r) = trace s @ evs @ modifier_events fm (snd r) @ tl \<and>
            map step_of evs = finger_cut_steps @ pattern_steps @
              (if corner_wanted fm
               then corner_cut_steps @ pattern_steps @ corner_constrain_steps else []) \<and>
            map step_of tl = [TimelineGroup, TimelineGroup]"
    by (elim conjE disjE) simp_all
  then have "\<exists>evs rest ks. new_events s (snd r) = evs @ rest \<and>
      map step_of evs = finger_cut_steps @ ks"
  proof cases
    case a
    then obtain evs where
      "trace (snd r) = trace s @ evs \<and> map step_of evs = finger_cut_steps" ..
    then have "new_events s (snd r) = evs @ [] \<and> map step_of evs = finger_cut_steps @ []"
      by (simp add: new_events_def)
    then show ?thesis by (intro exI)
  next
    case b
    then obtain evs where
      "trace (snd r) = trace s @ evs \<and>
        map step_of evs = finger_cut_steps @ pattern_steps @ corner_cut_steps" ..
    then have "new_events s (snd r) = evs @ [] \<and>
        map step_of evs = finger_cut_steps @ (pattern_steps @ corner_cut_steps)"
      by (simp add: new_events_def)
    then show ?thesis by (intro exI)
  next
    case c
    then obtain evs where
      "trace (snd r) = trace s @ evs \<and>
        map step_of evs = finger_cut_steps @ [PatternDuplicate]" ..
    then have "new_events s (snd r) = evs @ [] \<and>
        map step_of evs = finger_cut_steps @ [PatternDuplicate]"
      by (simp add: new_events_def)
    then show ?thesis by (intro exI)
  next
    case d
    then obtain evs where "\<exists>tl. trace (snd r) = trace s @ evs @ modifier_events fm (snd r) @ tl \<and>
            map step_of evs = finger_cut_steps @ pattern_steps @
              (if corner_wanted fm
               then corner_cut_steps @ pattern_steps @ corner_constrain_steps else []) \<and>
            map step_of tl = [TimelineGroup, TimelineGroup]" ..
    then obtain tl where
      "trace (snd r) = trace s @ evs @ modifier_events fm (snd r) @ tl \<and>
            map step_of evs = finger_cut_steps @ pattern_steps @
              (if corner_wanted fm
               then corner_cut_steps @ pattern_steps @ corner_constrain_steps else []) \<and>
            map step_of tl = [TimelineGroup, TimelineGroup]" ..
    then have "new_events s (snd r) = evs @ (modifier_events fm (snd r) @ tl) \<and>
        map step_of evs = finger_cut_steps @ (pattern_steps @
              (if corner_wanted fm
               then corner_cut_steps @ pattern_steps @ corner_constrain_steps else []))"
      by (simp add: new_events_def)
    then show ?thesis by (intro exI)
  qed
  then obtain evs rest ks where
    e: "new_events s (snd r) = evs @ rest" "map step_of evs = finger_cut_steps @ ks"
    by (elim exE conjE)
  have "length evs = length (finger_cut_steps @ ks)"
    using e(2) by (metis length_map)
  then have l: "12 \<le> length evs" by (simp add: finger_cut_steps_def)
  have "map step_of (take 12 (evs @ rest)) = take 12 (map step_of evs)"
    using l by (simp add: take_map)
  also have "\<dots> = DrawRectangle # replicate 8 Constrain @ replicate 3 ExtrudeCut"
    unfolding e(2) by (simp add: finger_cut_steps_def numeral_eq_Suc)
  finally show ?thesis by (simp add: e(1))
qed

lemma draw_finger_at_cut:
  "\<exists>cut. \<forall>primary secondary.
     draw_finger en fm sk ex b primary secondary s =
       (case duplicate en fm (name fm @ '' Finger Duplicate Pattern'')
               [cut] (notches (params fm))
               (pattern_distance (params fm)) (interior_value (inputs fm) + 2)
               primary secondary b (snd (draw_finger en fm sk ex b None None s)) of
          (Inl e, s5) \<Rightarrow> (Inl e, s5)
        | (Inr pat, s5) \<Rightarrow> (Inr (), s5\<lparr>finger_pattern := Some pat\<rparr>))"
proof -
  let ?fng = "Rectangle (length (trace s))"
  let ?start = "next_point en (geometry en (trace s) (Point Border Bottom Left))
                  (start (params fm)) 0 (is_vertical (border fm))"
  let ?s1 = "(emits [AddTwoPointRectangle sk ?start
                (next_point en ?start (finger_length (params fm)) (width (border fm))
                   (is_vertical (border fm)))] s)\<lparr>finger := Some ?fng\<rparr>"
  have f1: "finger ?s1 = Some ?fng" by simp
  show ?thesis
    unfolding draw_finger_def Let_def
    apply (simp only: emit_emits constrain_finger_eq [OF f1] extrude_eq prod.case sum.case
             duplicate_no_primary snd_conv)
    apply (rule exI)
    apply (intro allI)
    apply (rule refl)
    done
qed

lemma draw_corner_at_cut:
  "\<exists>cut lc rc. \<forall>primary secondary.
     draw_corner en fm sk ex b primary secondary s =
       (case duplicate en fm (name fm @ '' Corner Duplicate Pattern'') [cut] 1 0 2
               primary secondary b (snd (draw_corner en fm sk ex b None None s)) of
          (Inl e, s5) \<Rightarrow> (Inl e, s5)
        | (Inr pat, s5) \<Rightarrow>
            if is_vertical (border fm)
            then (Inr (), constrain_vertical_corners en sk lc rc
                            (s5\<lparr>corner_pattern := Some pat\<rparr>))
            else (Inr (), constrain_horizontal_corners en sk lc rc
                            (s5\<lparr>corner_pattern := Some pat\<rparr>)))"
  unfolding draw_corner_def Let_def
  apply (simp only: draw_left_corner_def draw_right_corner_def Let_def emit_emits extrude_eq
           prod.case sum.case duplicate_no_primary snd_conv)
  apply (rule exI)+
  apply (intro allI)
  apply (rule refl)
  done


lemma finger_cut_state_reached:
  "\<exists>cut. \<forall>primary secondary.
     draw_finger en fm sk (selected_body (inputs fm)) (selected_body (inputs fm))
         primary secondary s =
       (case duplicate en fm (name fm @ '' Finger Duplicate Pattern'')
               [cut] (notches (params fm))
               (pattern_distance (params fm)) (interior_value (inputs fm) + 2)
               primary secondary (selected_body (inputs fm)) (finger_cut_state en fm sk s) of
          (Inl e, s5) \<Rightarrow> (Inl e, s5)
        | (Inr pat, s5) \<Rightarrow> (Inr (), s5\<lparr>finger_pattern := Some pat\<rparr>))"
  unfolding finger_cut_state_def by (rule draw_finger_at_cut)

lemma corner_cut_state_reached:
  "\<exists>cut lc rc. \<forall>primary secondary.
     draw_corner en fm sk (selected_body (inputs fm)) (selected_body (inputs fm))
         primary secondary s =
       (case duplicate en fm (name fm @ '' Corner Duplicate Pattern'') [cut] 1 0 2
               primary secondary (selected_body (inputs fm)) (corner_cut_state en fm sk s) of
          (Inl e, s5) \<Rightarrow> (Inl e, s5)
        | (Inr pat, s5) \<Rightarrow>
            if is_vertical (border fm)
            then (Inr (), constrain_vertical_corners en sk lc rc
                            (s5\<lparr>corner_pattern := Some pat\<rparr>))
            else (Inr (), constrain_horizontal_corners en sk lc rc
                            (s5\<lparr>corner_pattern := Some pat\<rparr>)))"
  unfolding corner_cut_state_def by (rule draw_corner_at_cut)

lemma draw_finger_result:
  "(primary = None \<or>
      (\<exists>p. primary = Some p \<and> \<not> isValid en (trace (finger_cut_state en fm sk s)) p) \<longrightarrow>
      draw_finger en fm sk (selected_body (inputs fm)) (selected_body (inputs fm))
        primary secondary s = (Inl PrimaryAxisMissing, finger_cut_state en fm sk s)) \<and>
   (fst (draw_finger en fm sk (selected_body (inputs fm)) (selected_body (inputs fm))
          primary secondary s) = Inr () \<longleftrightarrow>
      (\<exists>p c. primary = Some p \<and> isValid en (trace (finger_cut_state en fm sk s)) p \<and>
         secondary = Some c))"
proof -
  from finger_cut_state_reached [of en fm sk s] obtain cut where
    eq: "\<forall>primary secondary.
     draw_finger en fm sk (selected_body (inputs fm)) (selected_body (inputs fm))
         primary secondary s =
       (case duplicate en fm (name fm @ '' Finger Duplicate Pattern'')
               [cut] (notches (params fm))
               (pattern_distance (params fm)) (interior_value (inputs fm) + 2)
               primary secondary (selected_body (inputs fm)) (finger_cut_state en fm sk s) of
          (Inl e, s5) \<Rightarrow> (Inl e, s5)
        | (Inr pat, s5) \<Rightarrow> (Inr (), s5\<lparr>finger_pattern := Some pat\<rparr>))" ..
  show ?thesis
  proof (cases primary)
    case None
    then show ?thesis by (simp add: eq duplicate_no_primary)
  next
    case (Some p)
    show ?thesis
    proof (cases "isValid en (trace (finger_cut_state en fm sk s)) p")
      case False
      with Some show ?thesis by (simp add: eq duplicate_invalid_primary)
    next
      case True
      show ?thesis
      proof (cases secondary)
        case None
        with Some True show ?thesis by (simp add: eq duplicate_no_secondary)
      next
        case (Some c)
        with \<open>primary = Some p\<close> True show ?thesis by (simp add: eq duplicate_ok)
      qed
    qed
  qed
qed

lemma draw_corner_result:
  "(primary = None \<or>
      (\<exists>p. primary = Some p \<and> \<not> isValid en (trace (corner_cut_state en fm sk s)) p) \<longrightarrow>
      draw_corner en fm sk (selected_body (inputs fm)) (selected_body (inputs fm))
        primary secondary s = (Inl PrimaryAxisMissing, corner_cut_state en fm sk s))"
proof -
  from corner_cut_state_reached [of en fm sk s] obtain cut lc rc where
    eq: "\<forall>primary secondary.
     draw_corner en fm sk (selected_body (inputs fm)) (selected_body (inputs fm))
         primary secondary s =
       (case duplicate en fm (name fm @ '' Corner Duplicate Pattern'') [cut] 1 0 2
               primary secondary (selected_body (inputs fm)) (corner_cut_state en fm sk s) of
          (Inl e, s5) \<Rightarrow> (Inl e, s5)
        | (Inr pat, s5) \<Rightarrow>
            if is_vertical (border fm)
            then (Inr (), constrain_vertical_corners en sk lc rc
                            (s5\<lparr>corner_pattern := Some pat\<rparr>))
            else (Inr (), constrain_horizontal_corners en sk lc rc
                            (s5\<lparr>corner_pattern := Some pat\<rparr>)))"
    by (elim exE)
  show ?thesis
  proof (cases primary)
    case None
    then show ?thesis by (simp add: eq duplicate_no_primary)
  next
    case (Some p)
    show ?thesis
    proof (cases "isValid en (trace (corner_cut_state en fm sk s)) p")
      case False
      with Some show ?thesis by (simp add: eq duplicate_invalid_primary)
    next
      case True
      with Some show ?thesis by simp
    qed
  qed
qed

lemma finger_cut_state_trace:
  "\<exists>evs. trace (finger_cut_state en fm sk s) = trace s @ evs \<and>
      map step_of evs = finger_cut_steps"
proof -
  define r where "r = draw_finger en fm sk (selected_body (inputs fm))
     (selected_body (inputs fm)) None None s"
  have "r = (Inl PrimaryAxisMissing, finger_cut_state en fm sk s)"
    using draw_finger_result [of None en fm sk s None] by (simp add: r_def)
  then have rr: "fst r = Inl PrimaryAxisMissing" "snd r = finger_cut_state en fm sk s"
    by simp_all
  from draw_finger_outcomes [OF r_def] rr(1) have
    "\<exists>evs. trace (snd r) = trace s @ evs \<and> map step_of evs = finger_cut_steps"
    by (elim conjE disjE) simp_all
  then show ?thesis by (simp add: rr(2))
qed

lemma corner_cut_state_trace:
  "\<exists>evs. trace (corner_cut_state en fm sk s) = trace s @ evs \<and>
      map step_of evs = corner_cut_steps"
proof -
  define r where "r = draw_corner en fm sk (selected_body (inputs fm))
     (selected_body (inputs fm)) None None s"
  have "r = (Inl PrimaryAxisMissing, corner_cut_state en fm sk s)"
    using draw_corner_result [of None en fm sk s None] by (simp add: r_def)
  then have rr: "fst r = Inl PrimaryAxisMissing" "snd r = corner_cut_state en fm sk s"
    by simp_all
  from draw_corner_outcomes [OF r_def] rr(1) have
    "\<exists>evs. trace (snd r) = trace s @ evs \<and> map step_of evs = corner_cut_steps"
    by (elim conjE disjE) simp_all
  then show ?thesis by (simp add: rr(2))
qed

lemma draw_raises_with_finger:
  assumes "draw_finger en fm sk (selected_body (inputs fm)) (selected_body (inputs fm))
     (reference_line (border fm)) (perpendicular_edge en) s = (Inl e, s1)"
  shows "draw en fm sk s = (Inl e, s1)"
  using assms by (simp add: draw_def Let_def)

lemma draw_raises_with_corner:
  assumes "draw_finger en fm sk (selected_body (inputs fm)) (selected_body (inputs fm))
     (reference_line (border fm)) (perpendicular_edge en) s = (Inr (), s1)"
    and "offset (params fm) \<noteq> 0" and "\<not> tab_first (inputs fm)"
    and "draw_corner en fm sk (selected_body (inputs fm)) (selected_body (inputs fm))
     (reference_line (border fm)) (perpendicular_edge en) s1 = (Inl e, s2)"
  shows "draw en fm sk s = (Inl e, s2)"
  using assms by (simp add: draw_def Let_def)


lemma corners_drawn:
  assumes f: "fst (draw_finger en fm sk (selected_body (inputs fm)) (selected_body (inputs fm))
     (reference_line (border fm)) (perpendicular_edge en) s) = Inr ()"
    and w: "offset (params fm) \<noteq> 0" "\<not> tab_first (inputs fm)"
  shows "left_corner (snd (draw en fm sk s)) = Some (Rectangle (length (trace s) + 18))"
proof -
  let ?b = "selected_body (inputs fm)"
  let ?p = "reference_line (border fm)"
  let ?q = "perpendicular_edge en"
  define r where "r = draw_finger en fm sk ?b ?b ?p ?q s"
  define c where "c = draw_corner en fm sk ?b ?b ?p ?q (snd r)"
  from f have fr: "fst r = Inr ()" by (simp add: r_def)
  then have fe: "draw_finger en fm sk ?b ?b ?p ?q s = (Inr (), snd r)"
    unfolding r_def by (metis prod.collapse)
  from draw_finger_outcomes [OF r_def] fr have
    fa: "finger_dimension (snd r) = Some (Dimension (length (trace s) + 5))"
      "offset_dimension (snd r) = Some (Dimension (length (trace s) + 6))"
      "finger_cut (snd r) = Some (ExtrudeFeature (length (trace s) + 12))"
      "finger_pattern (snd r) = Some (PatternFeature (length (trace s) + 16))"
    and tr: "\<exists>evs. trace (snd r) = trace s @ evs \<and>
         map step_of evs = finger_cut_steps @ pattern_steps"
    by (elim conjE disjE, simp_all)+
  from tr obtain evs where
    evs: "trace (snd r) = trace s @ evs \<and> map step_of evs = finger_cut_steps @ pattern_steps" ..
  have "length evs = length (finger_cut_steps @ pattern_steps)"
    using evs by (metis length_map)
  then have "length evs = 18"
    by (simp add: finger_cut_steps_def pattern_steps_def)
  then have len: "length (trace (snd r)) = length (trace s) + 18"
    using evs by simp
  from draw_corner_outcomes [OF c_def] have
    cfa: "finger_attrs (snd c) = finger_attrs (snd r)"
    and clc: "left_corner (snd c) = Some (Rectangle (length (trace s) + 18))"
    using len by simp_all
  have ce: "draw_corner en fm sk ?b ?b ?p ?q (snd r) = (fst c, snd c)"
    by (simp add: c_def)
  show ?thesis
  proof (cases "fst c")
    case (Inl e)
    with ce have "draw_corner en fm sk ?b ?b ?p ?q (snd r) = (Inl e, snd c)" by simp
    from draw_raises_with_corner [OF fe w this] clc show ?thesis by simp
  next
    case (Inr u)
    with ce have cr: "draw_corner en fm sk ?b ?b ?p ?q (snd r) = (Inr (), snd c)" by simp
    have t: "draw en fm sk s =
       (case (if \<not> parametric_flag (inputs fm) then call_modifier fm (snd c)
                        else (Inr (), snd c)) of
                   (Inl e, s3) \<Rightarrow> (Inl e, s3)
                 | (Inr u, s3) \<Rightarrow>
                     (Inr (), emit (SetName (NamedGroup (length (trace s3)))
                                      (name fm @ '' Finger Group''))
                                (emit (TimelineGroupsAdd (markerPosition en (trace s) - 1)
                                         (markerPosition en (trace s3) - 1)) s3)))"
      unfolding draw_def Let_def by (simp add: fe w cr)
    have cffa: "finger_attrs (snd c) = (Some (Dimension (length (trace s) + 5)),
          Some (Dimension (length (trace s) + 6)), Some (ExtrudeFeature (length (trace s) + 12)),
          Some (PatternFeature (length (trace s) + 16)))"
      using cfa fa by (simp add: finger_attrs_def)
    from draw_tail [OF cffa t] have "corner_attrs (snd (draw en fm sk s)) = corner_attrs (snd c)"
      by simp
    with clc show ?thesis by (simp add: corner_attrs_def)
  qed
qed

lemma finger_cut_state_length:
  "length (trace (finger_cut_state en fm sk s)) = length (trace s) + 14"
proof -
  from finger_cut_state_trace [of en fm sk s] obtain evs where
    e: "trace (finger_cut_state en fm sk s) = trace s @ evs \<and>
      map step_of evs = finger_cut_steps" ..
  then have "length evs = length finger_cut_steps" by (metis length_map)
  then have "length evs = 14" by (simp add: finger_cut_steps_def)
  with e show ?thesis by simp
qed

lemma corner_cut_state_length:
  "length (trace (corner_cut_state en fm sk s)) = length (trace s) + 7"
proof -
  from corner_cut_state_trace [of en fm sk s] obtain evs where
    e: "trace (corner_cut_state en fm sk s) = trace s @ evs \<and>
      map step_of evs = corner_cut_steps" ..
  then have "length evs = length corner_cut_steps" by (metis length_map)
  then have "length evs = 7" by (simp add: corner_cut_steps_def)
  with e show ?thesis by simp
qed

lemma draw_finger_returned_trace:
  assumes "fst (draw_finger en fm sk ex b primary secondary s) = Inr ()"
  shows "\<exists>evs. trace (snd (draw_finger en fm sk ex b primary secondary s)) = trace s @ evs \<and>
      map step_of evs = finger_cut_steps @ pattern_steps"
  using draw_finger_outcomes [OF refl, of en fm sk ex b primary secondary s] assms
  by (elim conjE disjE) simp_all


lemma fold_project:
  "sketch_trace (fold (project h) es st) = sketch_trace st @ map Project es \<and>
   line_count (fold (project h) es st) = line_count st + sum_list (map (projected_lines h) es)"
  by (induction es arbitrary: st) (simp_all add: project_def)

lemma Sketch_init_trace:
  "sketch_trace (snd (Sketch_init h nm b fc st)) =
     sketch_trace st @ [SketchesAdd b fc, SetSketchName nm] @
     map SetIsConstruction (slice 0 4 (outline_lines h fc)) @
     map Project (take 4 (brep_edges h fc)) @
     map SetIsConstruction
       (slice 4 8 (outline_lines h fc +
          sum_list (map (projected_lines h) (take 4 (brep_edges h fc))))) \<and>
   rectangle_lines (face_lines (fst (Sketch_init h nm b fc st))) =
     slice 0 4 (outline_lines h fc) \<and>
   rectangle_lines (sketch_border (fst (Sketch_init h nm b fc st))) =
     slice 4 8 (outline_lines h fc +
          sum_list (map (projected_lines h) (take 4 (brep_edges h fc)))) \<and>
   reference_points (fst (Sketch_init h nm b fc st)) =
     ReferencePoints (sketch_border (fst (Sketch_init h nm b fc st))) \<and>
   sketch_reference_line (fst (Sketch_init h nm b fc st)) =
     ReferenceLine (sketch_border (fst (Sketch_init h nm b fc st))) \<and>
   sketch_face (fst (Sketch_init h nm b fc st)) = fc"
  by (simp add: Sketch_init_def Rectangle_init_def Let_def fold_project)

section \<open>The claims\<close>

text \<open>
  Claim C1. A call of \<open>duplicate\<close> raises \<open>PrimaryAxisMissing\<close> if and only if the
  primary axis argument is \<open>None\<close> or its \<open>isValid\<close> reads false at the call, and
  it then raises before any host call (the state is unchanged). With a usable primary axis
  the \<open>raise\<close> statement is not reached; the only other exception of \<open>duplicate\<close>
  is the interpreter's \<open>AttributeError\<close> of claim C10, which no \<open>raise\<close> statement
  of the program produces.
\<close>

theorem duplicate_raises_iff:
  "(fst (duplicate en fm nm fs q dd sq primary secondary b s) = Inl PrimaryAxisMissing) =
     (primary = None \<or> (\<exists>p. primary = Some p \<and> \<not> isValid en (trace s) p)) \<and>
   (fst (duplicate en fm nm fs q dd sq primary secondary b s) = Inl PrimaryAxisMissing \<longrightarrow>
      snd (duplicate en fm nm fs q dd sq primary secondary b s) = s)"
proof (cases primary)
  case None
  then show ?thesis by (simp add: duplicate_no_primary)
next
  case (Some p)
  show ?thesis
  proof (cases "isValid en (trace s) p")
    case False
    with Some show ?thesis by (simp add: duplicate_invalid_primary)
  next
    case True
    with Some show ?thesis
      by (cases secondary) (simp_all add: duplicate_no_secondary duplicate_ok)
  qed
qed

text \<open>
  Both directions of C1 at concrete arguments.
\<close>

theorem duplicate_raises_iff_witness:
  "fst (duplicate example_env example_manager ''P'' [ExtrudeFeature 3] 4 20 2 None
          (Some (Edge 2)) (Body 0) (fresh [])) = Inl PrimaryAxisMissing \<and>
   snd (duplicate example_env example_manager ''P'' [ExtrudeFeature 3] 4 20 2 None
          (Some (Edge 2)) (Body 0) (fresh [])) = fresh [] \<and>
   fst (duplicate example_env example_manager ''P'' [ExtrudeFeature 3] 4 20 2 (Some (Edge 1))
          (Some (Edge 2)) (Body 0) (fresh [])) \<noteq> Inl PrimaryAxisMissing"
  using duplicate_raises_iff [of example_env example_manager "''P''" "[ExtrudeFeature 3]" 4 20 2
      None "Some (Edge 2)" "Body 0" "fresh []"]
    duplicate_raises_iff [of example_env example_manager "''P''" "[ExtrudeFeature 3]" 4 20 2
      "Some (Edge 1)" "Some (Edge 2)" "Body 0" "fresh []"]
  by (simp add: example_env_def)

text \<open>
  Claim C2, as stated, fails: the run of \<open>draw\<close> for a manager whose border has no
  reference line draws the finger rectangle, constrains it and cuts it, and then
  \<open>duplicate\<close> raises; no pattern is created in that run.
\<close>

theorem draw_step_order_counterexample:
  "fst (draw example_env no_primary_manager (Sketch 0) (fresh [])) = Inl PrimaryAxisMissing \<and>
   steps (new_events (fresh [])
     (snd (draw example_env no_primary_manager (Sketch 0) (fresh [])))) =
     [DrawRectangle, Constrain, ExtrudeCut] \<and>
   \<not> list_ex adds_pattern (new_events (fresh [])
     (snd (draw example_env no_primary_manager (Sketch 0) (fresh []))))"
  by code_simp

text \<open>
  Claim C2, amended. Every run of \<open>draw\<close> starts with the steps draw rectangle,
  constrain, extrude-cut, in this order. Every run that returns issues, in order: draw
  rectangle, constrain, extrude-cut, pattern duplicate; then, when the corner offset is
  not zero and tabs are not first, the corner notches (rectangles, cut, pattern,
  constraints); then, only when \<open>inputs.parametric\<close> is false, the replacement of the
  literal values; and last the timeline group. The run returns when the primary axis is
  present and valid throughout and the secondary axis is present.
\<close>

theorem draw_step_order:
  "take 3 (steps (new_events s (snd (draw en fm sk s)))) =
     [DrawRectangle, Constrain, ExtrudeCut] \<and>
   (reference_line (border fm) = Some p \<and> (\<forall>t. isValid en t p) \<and>
    perpendicular_edge en = Some c \<longrightarrow> fst (draw en fm sk s) = Inr ()) \<and>
   (fst (draw en fm sk s) = Inr () \<longrightarrow>
    steps (new_events s (snd (draw en fm sk s))) =
      [DrawRectangle, Constrain, ExtrudeCut, PatternDuplicate] @
      (if offset (params fm) \<noteq> 0 \<and> \<not> tab_first (inputs fm)
       then [DrawRectangle, ExtrudeCut, PatternDuplicate, Constrain] else []) @
      (if parametric_flag (inputs fm) then [] else [ReplaceLiterals]) @ [TimelineGroup])"
proof (intro conjI impI)
  define r where "r = draw en fm sk s"
  from draw_outcomes [OF r_def] consider
    (a) "\<exists>evs. trace (snd r) = trace s @ evs \<and> map step_of evs = finger_cut_steps"
  | (b) "\<exists>evs. trace (snd r) = trace s @ evs \<and>
       map step_of evs = finger_cut_steps @ pattern_steps @ corner_cut_steps"
  | (c) "\<exists>evs. trace (snd r) = trace s @ evs \<and>
       map step_of evs = finger_cut_steps @ [PatternDuplicate]"
  | (d) "\<exists>evs tl. trace (snd r) = trace s @ evs @ modifier_events fm (snd r) @ tl \<and>
            map step_of evs = finger_cut_steps @ pattern_steps @
              (if corner_wanted fm
               then corner_cut_steps @ pattern_steps @ corner_constrain_steps else []) \<and>
            map step_of tl = [TimelineGroup, TimelineGroup]"
    by (elim conjE disjE) simp_all
  then have "take 3 (steps (new_events s (snd r))) = [DrawRectangle, Constrain, ExtrudeCut]"
  proof cases
    case a
    then obtain evs where
      evs: "trace (snd r) = trace s @ evs \<and> map step_of evs = finger_cut_steps" ..
    then show ?thesis
      by (simp add: steps_of_outcome [of "snd r" s evs] finger_cut_steps_def numeral_eq_Suc)
  next
    case b
    then obtain evs where
      evs: "trace (snd r) = trace s @ evs \<and>
        map step_of evs = finger_cut_steps @ pattern_steps @ corner_cut_steps" ..
    then show ?thesis
      by (simp add: steps_of_outcome [of "snd r" s evs] finger_cut_steps_def pattern_steps_def
            corner_cut_steps_def numeral_eq_Suc)
  next
    case c
    then obtain evs where
      evs: "trace (snd r) = trace s @ evs \<and>
        map step_of evs = finger_cut_steps @ [PatternDuplicate]" ..
    then show ?thesis
      by (simp add: steps_of_outcome [of "snd r" s evs] finger_cut_steps_def numeral_eq_Suc)
  next
    case d
    then obtain evs where "\<exists>tl. trace (snd r) = trace s @ evs @ modifier_events fm (snd r) @ tl \<and>
            map step_of evs = finger_cut_steps @ pattern_steps @
              (if corner_wanted fm
               then corner_cut_steps @ pattern_steps @ corner_constrain_steps else []) \<and>
            map step_of tl = [TimelineGroup, TimelineGroup]" ..
    then obtain tl where
      evs: "trace (snd r) = trace s @ evs @ modifier_events fm (snd r) @ tl \<and>
            map step_of evs = finger_cut_steps @ pattern_steps @
              (if corner_wanted fm
               then corner_cut_steps @ pattern_steps @ corner_constrain_steps else []) \<and>
            map step_of tl = [TimelineGroup, TimelineGroup]" ..
    then have "steps (new_events s (snd r)) =
        remdups_adj (map step_of (evs @ modifier_events fm (snd r) @ tl))"
      by (simp add: steps_of_outcome [of "snd r" s "evs @ modifier_events fm (snd r) @ tl"])
    then show ?thesis
      using evs by (simp add: finger_cut_steps_def pattern_steps_def numeral_eq_Suc)
  qed
  then show "take 3 (steps (new_events s (snd (draw en fm sk s)))) =
     [DrawRectangle, Constrain, ExtrudeCut]"
    by (simp add: r_def)
next
  assume h: "reference_line (border fm) = Some p \<and> (\<forall>t. isValid en t p) \<and>
    perpendicular_edge en = Some c"
  then have p: "reference_line (border fm) = Some p" and v: "\<And>t. isValid en t p"
    and c: "perpendicular_edge en = Some c"
    by simp_all
  from draw_completes [OF refl p v c]
  show "fst (draw en fm sk s) = Inr ()" by simp
next
  assume ret: "fst (draw en fm sk s) = Inr ()"
  define r where "r = draw en fm sk s"
  from ret have ret': "fst r = Inr ()" by (simp add: r_def)
  note dc = draw_returned [OF r_def ret']
  from dc have at: "finger_dimension (snd r) = Some (Dimension (length (trace s) + 5))"
     "offset_dimension (snd r) = Some (Dimension (length (trace s) + 6))"
     "finger_cut (snd r) = Some (ExtrudeFeature (length (trace s) + 12))"
     "finger_pattern (snd r) = Some (PatternFeature (length (trace s) + 16))"
    by simp_all
  then have m: "map step_of (modifier_events fm (snd r)) =
      (if parametric_flag (inputs fm) then [] else [ReplaceLiterals])"
    by (simp add: modifier_events_def)
  from dc have "\<exists>evs tl. trace (snd r) = trace s @ evs @ modifier_events fm (snd r) @ tl \<and>
        map step_of evs = finger_cut_steps @ pattern_steps @
          (if corner_wanted fm
           then corner_cut_steps @ pattern_steps @ corner_constrain_steps else []) \<and>
        map step_of tl = [TimelineGroup, TimelineGroup]"
    by (elim conjE)
  then obtain evs where "\<exists>tl. trace (snd r) = trace s @ evs @ modifier_events fm (snd r) @ tl \<and>
        map step_of evs = finger_cut_steps @ pattern_steps @
          (if corner_wanted fm
           then corner_cut_steps @ pattern_steps @ corner_constrain_steps else []) \<and>
        map step_of tl = [TimelineGroup, TimelineGroup]" ..
  then obtain tl where
    evs: "trace (snd r) = trace s @ evs @ modifier_events fm (snd r) @ tl \<and>
        map step_of evs = finger_cut_steps @ pattern_steps @
          (if corner_wanted fm
           then corner_cut_steps @ pattern_steps @ corner_constrain_steps else []) \<and>
        map step_of tl = [TimelineGroup, TimelineGroup]" ..
  then have "steps (new_events s (snd r)) =
      remdups_adj (map step_of (evs @ modifier_events fm (snd r) @ tl))"
    by (simp add: steps_of_outcome [of "snd r" s "evs @ modifier_events fm (snd r) @ tl"])
  then have "steps (new_events s (snd r)) =
      [DrawRectangle, Constrain, ExtrudeCut, PatternDuplicate] @
      (if offset (params fm) \<noteq> 0 \<and> \<not> tab_first (inputs fm)
       then [DrawRectangle, ExtrudeCut, PatternDuplicate, Constrain] else []) @
      (if parametric_flag (inputs fm) then [] else [ReplaceLiterals]) @ [TimelineGroup]"
    using evs m
    by (simp add: finger_cut_steps_def pattern_steps_def corner_cut_steps_def
          corner_constrain_steps_def corner_wanted_def numeral_eq_Suc)
  then show "steps (new_events s (snd (draw en fm sk s))) =
      [DrawRectangle, Constrain, ExtrudeCut, PatternDuplicate] @
      (if offset (params fm) \<noteq> 0 \<and> \<not> tab_first (inputs fm)
       then [DrawRectangle, ExtrudeCut, PatternDuplicate, Constrain] else []) @
      (if parametric_flag (inputs fm) then [] else [ReplaceLiterals]) @ [TimelineGroup]"
    by (simp add: r_def)
qed

text \<open>
  The amended C2 at the example manager: corners are drawn and the modifier runs.
\<close>

theorem draw_step_order_witness:
  "fst (draw example_env example_manager (Sketch 0) (fresh [])) = Inr () \<and>
   steps (new_events (fresh []) (snd (draw example_env example_manager (Sketch 0) (fresh [])))) =
     [DrawRectangle, Constrain, ExtrudeCut, PatternDuplicate,
      DrawRectangle, ExtrudeCut, PatternDuplicate, Constrain, ReplaceLiterals, TimelineGroup]"
  using draw_step_order [of "fresh []" example_env example_manager "Sketch 0" "Edge 1" "Edge 2"]
  by (simp add: example_env_def example_manager_def)

text \<open>
  Claim C3. \<open>Sketch.offset_point\<close> and \<open>constrain_finger\<close> swap with the border's
  orientation, as the claim says; the corner rectangles do not.
  \<open>constrain_vertical_corners\<close> issues the very calls of
  \<open>constrain_horizontal_corners\<close>, for all arguments: horizontal constraints on the
  bottom and top lines, vertical ones on the left and right lines, and horizontal
  dimensions, where \<open>constrain_finger\<close> on a vertical border issues vertical
  constraints on the bottom and top lines, horizontal ones on the left and right lines,
  and vertical dimensions.
\<close>

theorem vertical_corners_not_swapped:
  "offset_point True pt len wid =
     create (coord_x pt + wid) (coord_y pt + len) (coord_z pt) \<and>
   offset_point False pt len wid =
     create (coord_x pt + len) (coord_y pt + wid) (coord_z pt) \<and>
   constrain_vertical_corners en sk lc rc s = constrain_horizontal_corners en sk lc rc s \<and>
   orientation_constraints (new_events s (constrain_vertical_corners en sk lc rc s)) =
     [AddHorizontal sk (Line lc Bottom), AddHorizontal sk (Line lc Top),
      AddVertical sk (Line lc Left), AddVertical sk (Line lc Right),
      AddHorizontal sk (Line rc Bottom), AddHorizontal sk (Line rc Top),
      AddVertical sk (Line rc Left), AddVertical sk (Line rc Right)] \<and>
   dimension_orientations (new_events s (constrain_vertical_corners en sk lc rc s)) =
     [HorizontalDimension, HorizontalDimension] \<and>
   orientation_constraints (new_events (fresh [] \<lparr>finger := Some (Rectangle 0)\<rparr>)
     (snd (constrain_finger example_env vertical_manager (Sketch 0) (Rectangle 0)
            (fresh [] \<lparr>finger := Some (Rectangle 0)\<rparr>)))) =
     [AddVertical (Sketch 0) (Line (Rectangle 0) Bottom),
      AddVertical (Sketch 0) (Line (Rectangle 0) Top),
      AddHorizontal (Sketch 0) (Line (Rectangle 0) Left),
      AddHorizontal (Sketch 0) (Line (Rectangle 0) Right)] \<and>
   dimension_orientations (new_events (fresh [] \<lparr>finger := Some (Rectangle 0)\<rparr>)
     (snd (constrain_finger example_env vertical_manager (Sketch 0) (Rectangle 0)
            (fresh [] \<lparr>finger := Some (Rectangle 0)\<rparr>)))) =
     [VerticalDimension, VerticalDimension] \<and>
   orientation_constraints (new_events (fresh [] \<lparr>finger := Some (Rectangle 0)\<rparr>)
     (snd (constrain_finger example_env example_manager (Sketch 0) (Rectangle 0)
            (fresh [] \<lparr>finger := Some (Rectangle 0)\<rparr>)))) =
     [AddHorizontal (Sketch 0) (Line (Rectangle 0) Bottom),
      AddHorizontal (Sketch 0) (Line (Rectangle 0) Top),
      AddVertical (Sketch 0) (Line (Rectangle 0) Left),
      AddVertical (Sketch 0) (Line (Rectangle 0) Right)] \<and>
   dimension_orientations (new_events (fresh [] \<lparr>finger := Some (Rectangle 0)\<rparr>)
     (snd (constrain_finger example_env example_manager (Sketch 0) (Rectangle 0)
            (fresh [] \<lparr>finger := Some (Rectangle 0)\<rparr>)))) =
     [HorizontalDimension, HorizontalDimension]"
  by (simp add: offset_point_def constrain_vertical_corners_def
        constrain_horizontal_corners_def constrain_finger_def Let_def emit_def emits_def
        new_events_def orientation_constraints_def vertical_manager_def example_manager_def
        fresh_def)

text \<open>
  Claim C4, as stated, fails: there is no input for which a corner rectangle is drawn
  before the finger is cut.
\<close>

theorem corners_never_precede_cut:
  "\<not> (\<exists>en fm sk t. corners_precede_cut (snd (draw en fm sk (fresh t))))"
  using corner_order by blast

text \<open>
  Claim C4, amended. In a run of \<open>draw\<close> on a new manager the finger cut is the
  thirteenth host call, and the twelve calls before it are the finger's rectangle, its
  eight constraints and dimensions and the three calls that prepare the cut: the corner
  notches are never drawn before the finger cut. If a corner rectangle is drawn at all,
  then the corner offset is not zero, tabs are not first, and the rectangle is drawn
  after the finger cut. And when the offset is not zero, tabs are not first and the
  finger's pattern duplication does not raise (\<open>draw_finger\<close> returns), the corner
  notches are drawn, after the finger cut, whatever happens later in the run. The
  finger's duplication does not raise exactly when the border has a reference line that
  is valid at the moment \<open>draw_finger\<close> calls \<open>duplicate\<close>, and the perpendicular
  edge is present.
\<close>

theorem corners_follow_cut_or_absent:
  "finger_cut (snd (draw en fm sk (fresh t))) = Some (ExtrudeFeature (length t + 12)) \<and>
   map step_of (take 12 (new_events (fresh t) (snd (draw en fm sk (fresh t))))) =
     DrawRectangle # replicate 8 Constrain @ replicate 3 ExtrudeCut \<and>
   \<not> corners_precede_cut (snd (draw en fm sk (fresh t))) \<and>
   (left_corner (snd (draw en fm sk (fresh t))) \<noteq> None \<longrightarrow>
      offset (params fm) \<noteq> 0 \<and> \<not> tab_first (inputs fm) \<and>
      corners_follow_cut (snd (draw en fm sk (fresh t)))) \<and>
   (fst (draw_finger en fm sk (selected_body (inputs fm)) (selected_body (inputs fm))
            (reference_line (border fm)) (perpendicular_edge en) (fresh t)) = Inr () \<and>
    offset (params fm) \<noteq> 0 \<and> \<not> tab_first (inputs fm) \<longrightarrow>
      corners_follow_cut (snd (draw en fm sk (fresh t)))) \<and>
   (fst (draw_finger en fm sk (selected_body (inputs fm)) (selected_body (inputs fm))
            (reference_line (border fm)) (perpendicular_edge en) (fresh t)) = Inr () \<longleftrightarrow>
      (\<exists>p c. reference_line (border fm) = Some p \<and>
         isValid en (trace (finger_cut_state en fm sk (fresh t))) p \<and>
         perpendicular_edge en = Some c))"
proof (intro conjI impI)
  show "finger_cut (snd (draw en fm sk (fresh t))) = Some (ExtrudeFeature (length t + 12))"
    using draw_outcomes [OF refl, of en fm sk "fresh t"] by (simp add: fresh_def)
next
  show "map step_of (take 12 (new_events (fresh t) (snd (draw en fm sk (fresh t))))) =
     DrawRectangle # replicate 8 Constrain @ replicate 3 ExtrudeCut"
    by (rule calls_before_cut [OF refl])
next
  show "\<not> corners_precede_cut (snd (draw en fm sk (fresh t)))"
    using corner_order [OF refl, of en fm sk t] by simp
next
  assume "left_corner (snd (draw en fm sk (fresh t))) \<noteq> None"
  then show "offset (params fm) \<noteq> 0" "\<not> tab_first (inputs fm)"
    "corners_follow_cut (snd (draw en fm sk (fresh t)))"
    using corner_order [OF refl, of en fm sk t] by simp_all
next
  assume h: "fst (draw_finger en fm sk (selected_body (inputs fm)) (selected_body (inputs fm))
            (reference_line (border fm)) (perpendicular_edge en) (fresh t)) = Inr () \<and>
    offset (params fm) \<noteq> 0 \<and> \<not> tab_first (inputs fm)"
  then have f: "fst (draw_finger en fm sk (selected_body (inputs fm)) (selected_body (inputs fm))
            (reference_line (border fm)) (perpendicular_edge en) (fresh t)) = Inr ()"
    and w: "offset (params fm) \<noteq> 0" "\<not> tab_first (inputs fm)"
    by simp_all
  from corners_drawn [OF f w]
  have "left_corner (snd (draw en fm sk (fresh t))) \<noteq> None"
    by simp
  then show "corners_follow_cut (snd (draw en fm sk (fresh t)))"
    using corner_order [OF refl, of en fm sk t] by simp
next
  show "fst (draw_finger en fm sk (selected_body (inputs fm)) (selected_body (inputs fm))
            (reference_line (border fm)) (perpendicular_edge en) (fresh t)) = Inr () \<longleftrightarrow>
      (\<exists>p c. reference_line (border fm) = Some p \<and>
         isValid en (trace (finger_cut_state en fm sk (fresh t))) p \<and>
         perpendicular_edge en = Some c)"
    using draw_finger_result [of "reference_line (border fm)" en fm sk "fresh t"
        "perpendicular_edge en"]
    by (rule conjunct2)
qed

text \<open>
  The amended C4 at the example manager, which draws corners; on a host where the
  reference line stops being valid after the finger's duplication, so that the run ends
  in \<open>PrimaryAxisMissing\<close> with the corners drawn after the cut; and with tabs first,
  where none is drawn.
\<close>

theorem corners_follow_cut_or_absent_witness:
  "corners_follow_cut (snd (draw example_env example_manager (Sketch 0) (fresh []))) \<and>
   \<not> corners_precede_cut (snd (draw example_env example_manager (Sketch 0) (fresh []))) \<and>
   corners_follow_cut (snd (draw short_lived_env example_manager (Sketch 0) (fresh []))) \<and>
   left_corner (snd (draw example_env tab_first_manager (Sketch 0) (fresh []))) = None"
proof -
  have b: "tab_first (inputs tab_first_manager)"
    by (simp add: tab_first_manager_def)
  have c: "\<not> tab_first (inputs example_manager)" "offset (params example_manager) \<noteq> 0"
    "reference_line (border example_manager) = Some (Edge 1)"
    by (simp_all add: example_manager_def)
  have d: "perpendicular_edge example_env = Some (Edge 2)" "\<And>t. isValid example_env t (Edge 1)"
    "perpendicular_edge short_lived_env = Some (Edge 2)"
    by (simp_all add: example_env_def short_lived_env_def)
  have e: "isValid short_lived_env
      (trace (finger_cut_state short_lived_env example_manager (Sketch 0) (fresh []))) (Edge 1)"
    by (simp add: short_lived_env_def finger_cut_state_length fresh_def)
  show ?thesis
    using corners_follow_cut_or_absent [of example_env example_manager "Sketch 0" "[]"]
      corners_follow_cut_or_absent [of short_lived_env example_manager "Sketch 0" "[]"]
      corners_follow_cut_or_absent [of example_env tab_first_manager "Sketch 0" "[]"]
      b c d e
    by simp
qed

text \<open>
  Claim C5. Past the guard on the primary axis, a secondary axis that is present but
  whose \<open>isValid\<close> reads false makes \<open>duplicate\<close> show the message box
  \<open>secondary valid: False\<close> and then create the pattern: it returns the pattern, no
  exception is raised and \<open>setDirectionTwo\<close> is not called. In every call, a
  \<open>setDirectionTwo\<close> among the host calls means that the secondary axis is present and
  valid (and \<open>params.distance\<close> is positive), and a secondary axis that is present,
  valid or not, never makes the call end in \<open>AttributeError\<close>.
\<close>

theorem secondary_invalid_reported:
  "(isValid en (trace s) p \<and>
    \<not> isValid en (trace s @ [PatternsCreateInput b fs p (createByReal q) (createByReal dd) EDT]) c
    \<longrightarrow>
    fst (duplicate en fm nm fs q dd sq (Some p) (Some c) b s) =
      Inr (PatternFeature (length (trace s) + 2)) \<and>
    new_events s (snd (duplicate en fm nm fs q dd sq (Some p) (Some c) b s)) =
      [PatternsCreateInput b fs p (createByReal q) (createByReal dd) EDT,
       MessageBox ''secondary valid: False'',
       PatternsAdd (PatternInput (length (trace s))),
       SetName (NamedFeature (PatternFeature (length (trace s) + 2))) nm]) \<and>
   (list_ex sets_direction_two
      (new_events s (snd (duplicate en fm nm fs q dd sq primary secondary b s))) \<longrightarrow>
    (\<exists>p' c'. primary = Some p' \<and> secondary = Some c' \<and> 0 < distance (params fm) \<and>
       isValid en (trace s @ [PatternsCreateInput b fs p' (createByReal q) (createByReal dd)
                               EDT]) c')) \<and>
   (secondary \<noteq> None \<longrightarrow>
    fst (duplicate en fm nm fs q dd sq primary secondary b s) \<noteq> Inl AttributeError)"
proof (intro conjI impI)
  assume "isValid en (trace s) p \<and>
    \<not> isValid en (trace s @ [PatternsCreateInput b fs p (createByReal q) (createByReal dd) EDT]) c"
  then show "fst (duplicate en fm nm fs q dd sq (Some p) (Some c) b s) =
      Inr (PatternFeature (length (trace s) + 2))"
    by (simp add: duplicate_ok)
next
  assume "isValid en (trace s) p \<and>
    \<not> isValid en (trace s @ [PatternsCreateInput b fs p (createByReal q) (createByReal dd) EDT]) c"
  then show "new_events s (snd (duplicate en fm nm fs q dd sq (Some p) (Some c) b s)) =
      [PatternsCreateInput b fs p (createByReal q) (createByReal dd) EDT,
       MessageBox ''secondary valid: False'',
       PatternsAdd (PatternInput (length (trace s))),
       SetName (NamedFeature (PatternFeature (length (trace s) + 2))) nm]"
    by (simp add: duplicate_ok new_events_def format_bool_def)
next
  assume a: "list_ex sets_direction_two
      (new_events s (snd (duplicate en fm nm fs q dd sq primary secondary b s)))"
  show "\<exists>p' c'. primary = Some p' \<and> secondary = Some c' \<and> 0 < distance (params fm) \<and>
       isValid en (trace s @ [PatternsCreateInput b fs p' (createByReal q) (createByReal dd)
                               EDT]) c'"
  proof (cases primary)
    case None
    with a show ?thesis by (simp add: duplicate_no_primary new_events_def)
  next
    case (Some p')
    show ?thesis
    proof (cases "isValid en (trace s) p'")
      case False
      with Some a show ?thesis by (simp add: duplicate_invalid_primary new_events_def)
    next
      case True
      show ?thesis
      proof (cases secondary)
        case None
        with Some True a show ?thesis
          by (simp add: duplicate_no_secondary new_events_def sets_direction_two_def)
      next
        case (Some c')
        with \<open>primary = Some p'\<close> True a show ?thesis
          by (simp add: duplicate_ok new_events_def sets_direction_two_def split: if_splits)
      qed
    qed
  qed
next
  assume "secondary \<noteq> None"
  then obtain c' where c': "secondary = Some c'" by (cases secondary) simp_all
  show "fst (duplicate en fm nm fs q dd sq primary secondary b s) \<noteq> Inl AttributeError"
  proof (cases primary)
    case None
    then show ?thesis by (simp add: duplicate_no_primary)
  next
    case (Some p')
    with c' show ?thesis
      by (cases "isValid en (trace s) p'") (simp_all add: duplicate_invalid_primary duplicate_ok)
  qed
qed

text \<open>
  C5 at an invalid and at a valid secondary axis.
\<close>

theorem secondary_invalid_reported_witness:
  "fst (duplicate invalid_secondary_env example_manager ''P'' [ExtrudeFeature 3] 4 20 2
          (Some (Edge 1)) (Some (Edge 2)) (Body 0) (fresh [])) = Inr (PatternFeature 2) \<and>
   new_events (fresh [])
     (snd (duplicate invalid_secondary_env example_manager ''P'' [ExtrudeFeature 3] 4 20 2
          (Some (Edge 1)) (Some (Edge 2)) (Body 0) (fresh []))) =
     [PatternsCreateInput (Body 0) [ExtrudeFeature 3] (Edge 1) (createByReal 4)
        (createByReal 20) EDT,
      MessageBox ''secondary valid: False'',
      PatternsAdd (PatternInput 0),
      SetName (NamedFeature (PatternFeature 2)) ''P''] \<and>
   list_ex sets_direction_two (new_events (fresh [])
     (snd (duplicate example_env example_manager ''P'' [ExtrudeFeature 3] 4 20 2
          (Some (Edge 1)) (Some (Edge 2)) (Body 0) (fresh [])))) \<and>
   0 < distance (params example_manager)"
  using secondary_invalid_reported [of invalid_secondary_env "fresh []" "Edge 1" "Body 0"
      "[ExtrudeFeature 3]" 4 20 "Edge 2" example_manager "''P''" 2 None None]
    secondary_invalid_reported [of example_env "fresh []" "Edge 1" "Body 0"
      "[ExtrudeFeature 3]" 4 20 "Edge 2" example_manager "''P''" 2 "Some (Edge 1)"
      "Some (Edge 2)"]
  by (simp add: invalid_secondary_env_def example_env_def fresh_def example_manager_def
        duplicate_ok new_events_def sets_direction_two_def)

text \<open>
  Claim C6, as stated, fails: with \<open>params.depth = 1\<close> the extent that \<open>extrude\<close>
  passes to the host is the finite distance \<open>str(-10)\<close>, set by
  \<open>setDistanceExtent\<close>; no through-all extent is set.
\<close>

theorem extrude_not_through_all:
  "filter sets_extent (new_events (fresh [])
     (snd (extrude example_manager [profiles_item 0] (Body 0) (Body 0)
             ''F Finger Cut Extrude'' (fresh [])))) =
     [SetDistanceExtent (ExtrudeInput 0) False (createByString (str (- 10)))] \<and>
   \<not> list_ex through_all (new_events (fresh [])
     (snd (extrude example_manager [profiles_item 0] (Body 0) (Body 0)
             ''F Finger Cut Extrude'' (fresh []))))"
  by (simp add: extrude_eq new_events_def fresh_def example_manager_def sets_extent_def
        through_all_def)

text \<open>
  Claim C6, amended. Every call of \<open>extrude\<close> issues exactly these host calls: create
  a cut input over the selected profiles, set a one-sided distance extent of
  \<open>-abs(params.depth * 10)\<close> (passed as a string), restrict the cut to the given body,
  add the feature and name it. The extent is a finite distance, never a through-all
  extent.
\<close>

theorem extrude_distance_extent:
  "new_events s (snd (extrude fm ps b ex nm s)) =
     [ExtrudesCreateInput ex ps CFO,
      SetDistanceExtent (ExtrudeInput (length (trace s))) False
        (createByString (str (- \<bar>depth (params fm) * 10\<bar>))),
      SetParticipantBodies (ExtrudeInput (length (trace s))) [b],
      ExtrudesAdd (ExtrudeInput (length (trace s))),
      SetName (NamedFeature (ExtrudeFeature (length (trace s) + 3))) nm] \<and>
   fst (extrude fm ps b ex nm s) = ExtrudeFeature (length (trace s) + 3) \<and>
   \<not> list_ex through_all (new_events s (snd (extrude fm ps b ex nm s)))"
  by (simp add: extrude_eq new_events_def through_all_def)

text \<open>
  Claim C7. The exception of a failed duplication leaves \<open>draw\<close> with the host exactly
  as it was when \<open>duplicate\<close> raised. If the border has no reference line, or the
  line is invalid when \<open>draw_finger\<close> calls \<open>duplicate\<close>, then \<open>draw\<close> ends in
  \<open>PrimaryAxisMissing\<close> and its final state is the state of that call: the old trace
  followed by the finger's rectangle, its eight constraints and dimensions and the five
  calls of its cut, each once and none undone. If the finger's duplication returns,
  corners are wanted and the line is invalid when \<open>draw_corner\<close> calls
  \<open>duplicate\<close>, then \<open>draw\<close> ends in \<open>PrimaryAxisMissing\<close> in the state of that
  call: these calls followed by the finger's pattern, the two corner rectangles and
  their cut. And every run of \<open>draw\<close> that ends in \<open>PrimaryAxisMissing\<close> has kept
  the old trace and added one of these two sequences of calls: no timeline group is
  created and the modifier is not invoked.
\<close>

theorem failed_duplication_keeps_calls:
  "(reference_line (border fm) = None \<or>
    (\<exists>p. reference_line (border fm) = Some p \<and>
       \<not> isValid en (trace (finger_cut_state en fm sk s)) p) \<longrightarrow>
      draw en fm sk s = (Inl PrimaryAxisMissing, finger_cut_state en fm sk s)) \<and>
   trace (finger_cut_state en fm sk s) = trace s @ new_events s (finger_cut_state en fm sk s) \<and>
   map step_of (new_events s (finger_cut_state en fm sk s)) =
     DrawRectangle # replicate 8 Constrain @ replicate 5 ExtrudeCut \<and>
   (fst (draw_finger en fm sk (selected_body (inputs fm)) (selected_body (inputs fm))
            (reference_line (border fm)) (perpendicular_edge en) s) = Inr () \<and>
    offset (params fm) \<noteq> 0 \<and> \<not> tab_first (inputs fm) \<and>
    (\<exists>p. reference_line (border fm) = Some p \<and>
       \<not> isValid en (trace (corner_cut_state en fm sk (snd (draw_finger en fm sk (selected_body (inputs fm)) (selected_body (inputs fm))
            (reference_line (border fm)) (perpendicular_edge en) s)))) p) \<longrightarrow>
      draw en fm sk s =
        (Inl PrimaryAxisMissing, corner_cut_state en fm sk (snd (draw_finger en fm sk (selected_body (inputs fm)) (selected_body (inputs fm))
            (reference_line (border fm)) (perpendicular_edge en) s)))) \<and>
   (fst (draw_finger en fm sk (selected_body (inputs fm)) (selected_body (inputs fm))
            (reference_line (border fm)) (perpendicular_edge en) s) = Inr () \<longrightarrow>
      trace (corner_cut_state en fm sk (snd (draw_finger en fm sk (selected_body (inputs fm)) (selected_body (inputs fm))
            (reference_line (border fm)) (perpendicular_edge en) s))) =
        trace s @ new_events s (corner_cut_state en fm sk (snd (draw_finger en fm sk (selected_body (inputs fm)) (selected_body (inputs fm))
            (reference_line (border fm)) (perpendicular_edge en) s))) \<and>
      map step_of (new_events s (corner_cut_state en fm sk (snd (draw_finger en fm sk (selected_body (inputs fm)) (selected_body (inputs fm))
            (reference_line (border fm)) (perpendicular_edge en) s)))) =
        DrawRectangle # replicate 8 Constrain @ replicate 5 ExtrudeCut @
        replicate 4 PatternDuplicate @ replicate 2 DrawRectangle @ replicate 5 ExtrudeCut) \<and>
   (fst (draw en fm sk s) = Inl PrimaryAxisMissing \<longrightarrow>
      trace (snd (draw en fm sk s)) = trace s @ new_events s (snd (draw en fm sk s)) \<and>
      (map step_of (new_events s (snd (draw en fm sk s))) =
         DrawRectangle # replicate 8 Constrain @ replicate 5 ExtrudeCut \<or>
       map step_of (new_events s (snd (draw en fm sk s))) =
         DrawRectangle # replicate 8 Constrain @ replicate 5 ExtrudeCut @
        replicate 4 PatternDuplicate @ replicate 2 DrawRectangle @ replicate 5 ExtrudeCut) \<and>
      TimelineGroup \<notin> set (map step_of (new_events s (snd (draw en fm sk s)))) \<and>
      ReplaceLiterals \<notin> set (map step_of (new_events s (snd (draw en fm sk s)))))"
proof -
  let ?p = "reference_line (border fm)"
  let ?q = "perpendicular_edge en"
  let ?f = "draw_finger en fm sk (selected_body (inputs fm)) (selected_body (inputs fm))
            (reference_line (border fm)) (perpendicular_edge en) s"
  let ?fcs = "finger_cut_state en fm sk s"
  let ?ccs = "corner_cut_state en fm sk (snd ?f)"
  have a: "?p = None \<or> (\<exists>p. ?p = Some p \<and> \<not> isValid en (trace ?fcs) p) \<longrightarrow>
      draw en fm sk s = (Inl PrimaryAxisMissing, ?fcs)"
  proof
    assume h: "?p = None \<or> (\<exists>p. ?p = Some p \<and> \<not> isValid en (trace ?fcs) p)"
    from draw_finger_result [of ?p en fm sk s ?q] have
      "?p = None \<or> (\<exists>p. ?p = Some p \<and> \<not> isValid en (trace ?fcs) p) \<longrightarrow>
         ?f = (Inl PrimaryAxisMissing, ?fcs)"
      by (rule conjunct1)
    with h have "?f = (Inl PrimaryAxisMissing, ?fcs)" by (rule rev_mp)
    then show "draw en fm sk s = (Inl PrimaryAxisMissing, ?fcs)"
      by (rule draw_raises_with_finger)
  qed
  from finger_cut_state_trace [of en fm sk s] obtain evs where
    evs: "trace ?fcs = trace s @ evs \<and> map step_of evs = finger_cut_steps" ..
  then have nf: "new_events s ?fcs = evs" by (simp add: new_events_def)
  have b1: "trace ?fcs = trace s @ new_events s ?fcs"
    unfolding nf using evs by simp
  have b2: "map step_of (new_events s ?fcs) =
      DrawRectangle # replicate 8 Constrain @ replicate 5 ExtrudeCut"
    unfolding nf using evs by (simp add: finger_cut_steps_def)
  have c: "fst ?f = Inr () \<and> offset (params fm) \<noteq> 0 \<and> \<not> tab_first (inputs fm) \<and>
      (\<exists>p. ?p = Some p \<and> \<not> isValid en (trace ?ccs) p) \<longrightarrow>
      draw en fm sk s = (Inl PrimaryAxisMissing, ?ccs)"
  proof
    assume h: "fst ?f = Inr () \<and> offset (params fm) \<noteq> 0 \<and> \<not> tab_first (inputs fm) \<and>
      (\<exists>p. ?p = Some p \<and> \<not> isValid en (trace ?ccs) p)"
    then have "fst ?f = Inr ()" by simp
    then have fe: "?f = (Inr (), snd ?f)" by (metis prod.collapse)
    from h have w: "offset (params fm) \<noteq> 0" "\<not> tab_first (inputs fm)" by simp_all
    from h have i: "?p = None \<or> (\<exists>p. ?p = Some p \<and> \<not> isValid en (trace ?ccs) p)"
      by simp
    from draw_corner_result [of ?p en fm sk "snd ?f" ?q] i have
      ce: "draw_corner en fm sk (selected_body (inputs fm)) (selected_body (inputs fm))
         ?p ?q (snd ?f) = (Inl PrimaryAxisMissing, ?ccs)"
      by (rule mp)
    show "draw en fm sk s = (Inl PrimaryAxisMissing, ?ccs)"
      using fe w ce by (rule draw_raises_with_corner)
  qed
  have d: "fst ?f = Inr () \<longrightarrow>
      trace ?ccs = trace s @ new_events s ?ccs \<and>
      map step_of (new_events s ?ccs) =
        DrawRectangle # replicate 8 Constrain @ replicate 5 ExtrudeCut @
        replicate 4 PatternDuplicate @ replicate 2 DrawRectangle @ replicate 5 ExtrudeCut"
  proof
    assume "fst ?f = Inr ()"
    from draw_finger_returned_trace [OF this] obtain es where
      es: "trace (snd ?f) = trace s @ es \<and> map step_of es = finger_cut_steps @ pattern_steps" ..
    from corner_cut_state_trace [of en fm sk "snd ?f"] obtain cs where
      cs: "trace ?ccs = trace (snd ?f) @ cs \<and> map step_of cs = corner_cut_steps" ..
    from es cs have t: "trace ?ccs = trace s @ (es @ cs)" by simp
    then have n: "new_events s ?ccs = es @ cs" by (simp add: new_events_def)
    show "trace ?ccs = trace s @ new_events s ?ccs \<and>
      map step_of (new_events s ?ccs) =
        DrawRectangle # replicate 8 Constrain @ replicate 5 ExtrudeCut @
        replicate 4 PatternDuplicate @ replicate 2 DrawRectangle @ replicate 5 ExtrudeCut"
      unfolding n using t es cs
      by (simp add: finger_cut_steps_def pattern_steps_def corner_cut_steps_def)
  qed
  have e: "fst (draw en fm sk s) = Inl PrimaryAxisMissing \<longrightarrow>
      trace (snd (draw en fm sk s)) = trace s @ new_events s (snd (draw en fm sk s)) \<and>
      (map step_of (new_events s (snd (draw en fm sk s))) =
         DrawRectangle # replicate 8 Constrain @ replicate 5 ExtrudeCut \<or>
       map step_of (new_events s (snd (draw en fm sk s))) =
         DrawRectangle # replicate 8 Constrain @ replicate 5 ExtrudeCut @
        replicate 4 PatternDuplicate @ replicate 2 DrawRectangle @ replicate 5 ExtrudeCut) \<and>
      TimelineGroup \<notin> set (map step_of (new_events s (snd (draw en fm sk s)))) \<and>
      ReplaceLiterals \<notin> set (map step_of (new_events s (snd (draw en fm sk s))))"
  proof
    assume raised: "fst (draw en fm sk s) = Inl PrimaryAxisMissing"
    define r where "r = draw en fm sk s"
    from raised have e: "fst r = Inl PrimaryAxisMissing" by (simp add: r_def)
    from draw_outcomes [OF r_def] e consider
      (finger) "\<exists>evs. trace (snd r) = trace s @ evs \<and> map step_of evs = finger_cut_steps"
    | (corner) "\<exists>evs. trace (snd r) = trace s @ evs \<and>
         map step_of evs = finger_cut_steps @ pattern_steps @ corner_cut_steps"
      by (elim conjE disjE) simp_all
    then have "trace (snd r) = trace s @ new_events s (snd r) \<and>
       (map step_of (new_events s (snd r)) =
          DrawRectangle # replicate 8 Constrain @ replicate 5 ExtrudeCut \<or>
        map step_of (new_events s (snd r)) =
          DrawRectangle # replicate 8 Constrain @ replicate 5 ExtrudeCut @
        replicate 4 PatternDuplicate @ replicate 2 DrawRectangle @ replicate 5 ExtrudeCut) \<and>
       TimelineGroup \<notin> set (map step_of (new_events s (snd r))) \<and>
       ReplaceLiterals \<notin> set (map step_of (new_events s (snd r)))"
    proof cases
      case finger
      then obtain evs where
        evs: "trace (snd r) = trace s @ evs \<and> map step_of evs = finger_cut_steps" ..
      then have n: "new_events s (snd r) = evs" by (simp add: new_events_def)
      show ?thesis unfolding n using evs by (simp add: finger_cut_steps_def)
    next
      case corner
      then obtain evs where
        evs: "trace (snd r) = trace s @ evs \<and>
          map step_of evs = finger_cut_steps @ pattern_steps @ corner_cut_steps" ..
      then have n: "new_events s (snd r) = evs" by (simp add: new_events_def)
      show ?thesis unfolding n using evs
        by (simp add: finger_cut_steps_def pattern_steps_def corner_cut_steps_def)
    qed
    then show "trace (snd (draw en fm sk s)) = trace s @ new_events s (snd (draw en fm sk s)) \<and>
      (map step_of (new_events s (snd (draw en fm sk s))) =
         DrawRectangle # replicate 8 Constrain @ replicate 5 ExtrudeCut \<or>
       map step_of (new_events s (snd (draw en fm sk s))) =
         DrawRectangle # replicate 8 Constrain @ replicate 5 ExtrudeCut @
        replicate 4 PatternDuplicate @ replicate 2 DrawRectangle @ replicate 5 ExtrudeCut) \<and>
      TimelineGroup \<notin> set (map step_of (new_events s (snd (draw en fm sk s)))) \<and>
      ReplaceLiterals \<notin> set (map step_of (new_events s (snd (draw en fm sk s))))"
      by (simp add: r_def)
  qed
  show ?thesis
    by (intro conjI) (rule a b1 b2 c d e)+
qed

text \<open>
  C7 at the manager without a reference line, where the finger's duplication fails, and
  on the host whose reference line is invalid once the finger is duplicated, where the
  corners' duplication fails.
\<close>

theorem failed_duplication_keeps_calls_witness:
  "draw example_env no_primary_manager (Sketch 0) (fresh []) =
     (Inl PrimaryAxisMissing,
      finger_cut_state example_env no_primary_manager (Sketch 0) (fresh [])) \<and>
   map step_of (new_events (fresh [])
     (snd (draw example_env no_primary_manager (Sketch 0) (fresh [])))) =
     DrawRectangle # replicate 8 Constrain @ replicate 5 ExtrudeCut \<and>
   fst (draw short_lived_env example_manager (Sketch 0) (fresh [])) =
     Inl PrimaryAxisMissing \<and>
   map step_of (new_events (fresh [])
     (snd (draw short_lived_env example_manager (Sketch 0) (fresh [])))) =
     DrawRectangle # replicate 8 Constrain @ replicate 5 ExtrudeCut @
        replicate 4 PatternDuplicate @ replicate 2 DrawRectangle @ replicate 5 ExtrudeCut"
proof -
  let ?f = "draw_finger short_lived_env example_manager (Sketch 0)
     (selected_body (inputs example_manager)) (selected_body (inputs example_manager))
     (reference_line (border example_manager)) (perpendicular_edge short_lived_env) (fresh [])"
  have h1: "reference_line (border no_primary_manager) = None"
    by (simp add: no_primary_manager_def)
  have c: "\<not> tab_first (inputs example_manager)" "offset (params example_manager) \<noteq> 0"
    "reference_line (border example_manager) = Some (Edge 1)"
    by (simp_all add: example_manager_def)
  have q: "perpendicular_edge short_lived_env = Some (Edge 2)"
    by (simp add: example_env_def short_lived_env_def)
  have v: "isValid short_lived_env
      (trace (finger_cut_state short_lived_env example_manager (Sketch 0) (fresh []))) (Edge 1)"
    by (simp add: short_lived_env_def finger_cut_state_length fresh_def)
  have iv: "\<And>t e. isValid short_lived_env t e = (length t < 20)"
    by (simp add: short_lived_env_def)
  have h2: "fst ?f = Inr ()"
    using draw_finger_result [of "reference_line (border example_manager)" short_lived_env
        example_manager "Sketch 0" "fresh []" "perpendicular_edge short_lived_env"] c q v
    by simp
  from draw_finger_returned_trace [OF h2] obtain es where
    es: "trace (snd ?f) = trace (fresh []) @ es \<and>
      map step_of es = finger_cut_steps @ pattern_steps" ..
  then have "length es = length (finger_cut_steps @ pattern_steps)" by (metis length_map)
  then have "length es = 18" by (simp add: finger_cut_steps_def pattern_steps_def)
  with es have l: "length (trace (snd ?f)) = 18" by (simp add: fresh_def)
  have h3: "\<not> isValid short_lived_env
      (trace (corner_cut_state short_lived_env example_manager (Sketch 0) (snd ?f))) (Edge 1)"
    by (simp add: iv corner_cut_state_length l)
  note n = failed_duplication_keeps_calls [where en = example_env and fm = no_primary_manager
      and sk = "Sketch 0" and s = "fresh []"]
  note m = failed_duplication_keeps_calls [where en = short_lived_env and fm = example_manager
      and sk = "Sketch 0" and s = "fresh []"]
  from n h1 have n1: "draw example_env no_primary_manager (Sketch 0) (fresh []) =
     (Inl PrimaryAxisMissing,
      finger_cut_state example_env no_primary_manager (Sketch 0) (fresh []))"
    by simp
  from n have n2: "map step_of (new_events (fresh [])
      (finger_cut_state example_env no_primary_manager (Sketch 0) (fresh []))) =
     DrawRectangle # replicate 8 Constrain @ replicate 5 ExtrudeCut"
    by simp
  from m h2 h3 c have m1: "draw short_lived_env example_manager (Sketch 0) (fresh []) =
     (Inl PrimaryAxisMissing,
      corner_cut_state short_lived_env example_manager (Sketch 0) (snd ?f))"
    by simp
  from m h2 have m2: "map step_of (new_events (fresh [])
      (corner_cut_state short_lived_env example_manager (Sketch 0) (snd ?f))) =
     DrawRectangle # replicate 8 Constrain @ replicate 5 ExtrudeCut @
        replicate 4 PatternDuplicate @ replicate 2 DrawRectangle @ replicate 5 ExtrudeCut"
    by simp
  show ?thesis
    unfolding n1 m1 using n2 m2 by simp
qed

text \<open>
  Claim C8, as stated, fails: on a triangular face \<open>Sketch.__init__\<close> marks three
  boundary lines, projects three edges and builds its border from the two lines
  \<open>lines[4:6]\<close>, not four of each.
\<close>

theorem sketch_init_three_edges:
  "brep_edges triangular_host (Face 0) = [Edge 0, Edge 1, Edge 2] \<and>
   sketch_trace (snd (Sketch_init triangular_host ''S'' (Body 0) (Face 0)
       \<lparr>sketch_trace = [], line_count = 0\<rparr>)) =
     [SketchesAdd (Body 0) (Face 0), SetSketchName ''S'',
      SetIsConstruction 0, SetIsConstruction 1, SetIsConstruction 2,
      Project (Edge 0), Project (Edge 1), Project (Edge 2),
      SetIsConstruction 4, SetIsConstruction 5] \<and>
   rectangle_lines (face_lines (fst (Sketch_init triangular_host ''S'' (Body 0) (Face 0)
       \<lparr>sketch_trace = [], line_count = 0\<rparr>))) = [0, 1, 2] \<and>
   rectangle_lines (sketch_border (fst (Sketch_init triangular_host ''S'' (Body 0) (Face 0)
       \<lparr>sketch_trace = [], line_count = 0\<rparr>))) = [4, 5]"
  using Sketch_init_trace [of triangular_host "''S''" "Body 0" "Face 0"
      "\<lparr>sketch_trace = [], line_count = 0\<rparr>"]
  by (simp add: triangular_host_def slice_def upt_rec)

text \<open>
  Claim C8, amended. For every face, \<open>Sketch.__init__\<close> adds a sketch on the face and
  names it, marks the lines \<open>lines[0:4]\<close> as construction geometry, projects the first
  four edges of the face, marks the lines \<open>lines[4:8]\<close> as construction geometry and
  saves the reference points and the reference line of the border made of these lines.
  When the new sketch holds the four lines outlining the face, the face has four edges
  and each projects to one line, these are the four boundary lines, the face's four edges
  and the four projected border lines.
\<close>

theorem sketch_init_construction:
  "sketch_trace (snd (Sketch_init h nm b fc st)) =
     sketch_trace st @ [SketchesAdd b fc, SetSketchName nm] @
     map SetIsConstruction (slice 0 4 (outline_lines h fc)) @
     map Project (take 4 (brep_edges h fc)) @
     map SetIsConstruction
       (slice 4 8 (outline_lines h fc +
          sum_list (map (projected_lines h) (take 4 (brep_edges h fc))))) \<and>
   sketch_face (fst (Sketch_init h nm b fc st)) = fc \<and>
   reference_points (fst (Sketch_init h nm b fc st)) =
     ReferencePoints (sketch_border (fst (Sketch_init h nm b fc st))) \<and>
   sketch_reference_line (fst (Sketch_init h nm b fc st)) =
     ReferenceLine (sketch_border (fst (Sketch_init h nm b fc st))) \<and>
   (outline_lines h fc = 4 \<and> length (brep_edges h fc) = 4 \<and>
    (\<forall>e \<in> set (brep_edges h fc). projected_lines h e = 1) \<longrightarrow>
    sketch_trace (snd (Sketch_init h nm b fc st)) =
      sketch_trace st @ [SketchesAdd b fc, SetSketchName nm] @
      map SetIsConstruction [0, 1, 2, 3] @
      map Project (brep_edges h fc) @
      map SetIsConstruction [4, 5, 6, 7] \<and>
    rectangle_lines (face_lines (fst (Sketch_init h nm b fc st))) = [0, 1, 2, 3] \<and>
    rectangle_lines (sketch_border (fst (Sketch_init h nm b fc st))) = [4, 5, 6, 7])"
proof -
  note g = Sketch_init_trace [of h nm b fc st]
  have "sketch_trace (snd (Sketch_init h nm b fc st)) =
      sketch_trace st @ [SketchesAdd b fc, SetSketchName nm] @
      map SetIsConstruction [0, 1, 2, 3] @
      map Project (brep_edges h fc) @
      map SetIsConstruction [4, 5, 6, 7] \<and>
    rectangle_lines (face_lines (fst (Sketch_init h nm b fc st))) = [0, 1, 2, 3] \<and>
    rectangle_lines (sketch_border (fst (Sketch_init h nm b fc st))) = [4, 5, 6, 7]"
    if a: "outline_lines h fc = 4 \<and> length (brep_edges h fc) = 4 \<and>
      (\<forall>e \<in> set (brep_edges h fc). projected_lines h e = 1)"
  proof -
    from a have a3: "\<forall>e \<in> set (brep_edges h fc). projected_lines h e = 1"
      and a2: "length (brep_edges h fc) = 4"
      by simp_all
    from a3 have "map (projected_lines h) (brep_edges h fc) =
        replicate (length (brep_edges h fc)) 1"
      by (simp add: map_replicate_const [symmetric] cong: map_cong)
    then have s: "sum_list (map (projected_lines h) (take 4 (brep_edges h fc))) = 4"
      using a2 by (simp add: sum_list_replicate)
    have i: "slice 0 4 4 = [0, 1, 2, 3]" "slice 4 8 8 = [4, 5, 6, 7]"
      by (simp_all add: slice_def upt_rec)
    show ?thesis
      using g a s i by simp
  qed
  with g show ?thesis by simp
qed

text \<open>
  C8 on a rectangular face.
\<close>

theorem sketch_init_construction_witness:
  "sketch_trace (snd (Sketch_init rectangular_host ''S'' (Body 0) (Face 0)
       \<lparr>sketch_trace = [], line_count = 0\<rparr>)) =
     [SketchesAdd (Body 0) (Face 0), SetSketchName ''S'',
      SetIsConstruction 0, SetIsConstruction 1, SetIsConstruction 2, SetIsConstruction 3,
      Project (Edge 0), Project (Edge 1), Project (Edge 2), Project (Edge 3),
      SetIsConstruction 4, SetIsConstruction 5, SetIsConstruction 6, SetIsConstruction 7] \<and>
   rectangle_lines (sketch_border (fst (Sketch_init rectangular_host ''S'' (Body 0) (Face 0)
       \<lparr>sketch_trace = [], line_count = 0\<rparr>))) = [4, 5, 6, 7]"
  using sketch_init_construction [of rectangular_host "''S''" "Body 0" "Face 0"
      "\<lparr>sketch_trace = [], line_count = 0\<rparr>"]
  by (simp add: rectangular_host_def slice_def upt_rec)

text \<open>
  Claim C9, as stated, fails: for the manager without a reference line
  \<open>inputs.parametric\<close> is false, and the run of \<open>draw\<close> ends in
  \<open>PrimaryAxisMissing\<close> without invoking the modifier.
\<close>

theorem modifier_counterexample:
  "parametric_flag (inputs no_primary_manager) = False \<and>
   fst (draw example_env no_primary_manager (Sketch 0) (fresh [])) = Inl PrimaryAxisMissing \<and>
   filter (\<lambda>e. step_of e = ReplaceLiterals) (new_events (fresh [])
     (snd (draw example_env no_primary_manager (Sketch 0) (fresh [])))) = []"
  by code_simp

text \<open>
  Claim C9, amended. In no run of \<open>draw\<close> with \<open>inputs.parametric\<close> true, and in no
  run that ends in an exception, is the modifier invoked. In every run that returns the
  modifier is invoked exactly when \<open>inputs.parametric\<close> is false, once, on the
  dimensions and features that the run created (and on the corner attributes as they
  are at that moment). The run returns when the primary axis is present and valid
  throughout and the secondary axis is present.
\<close>

theorem modifier_iff_not_parametric:
  "(parametric_flag (inputs fm) \<longrightarrow>
      filter (\<lambda>e. step_of e = ReplaceLiterals) (new_events s (snd (draw en fm sk s))) = []) \<and>
   (fst (draw en fm sk s) \<noteq> Inr () \<longrightarrow>
      filter (\<lambda>e. step_of e = ReplaceLiterals) (new_events s (snd (draw en fm sk s))) = []) \<and>
   (reference_line (border fm) = Some p \<and> (\<forall>t. isValid en t p) \<and>
    perpendicular_edge en = Some c \<longrightarrow> fst (draw en fm sk s) = Inr ()) \<and>
   (fst (draw en fm sk s) = Inr () \<longrightarrow>
    finger_dimension (snd (draw en fm sk s)) = Some (Dimension (length (trace s) + 5)) \<and>
    offset_dimension (snd (draw en fm sk s)) = Some (Dimension (length (trace s) + 6)) \<and>
    finger_cut (snd (draw en fm sk s)) = Some (ExtrudeFeature (length (trace s) + 12)) \<and>
    finger_pattern (snd (draw en fm sk s)) = Some (PatternFeature (length (trace s) + 16)) \<and>
    filter (\<lambda>e. step_of e = ReplaceLiterals) (new_events s (snd (draw en fm sk s))) =
      (if parametric_flag (inputs fm) then []
       else [ModifierCall (modifier fm) (alias_name fm)
               (Dimension (length (trace s) + 5)) (Dimension (length (trace s) + 6))
               (ExtrudeFeature (length (trace s) + 12))
               (PatternFeature (length (trace s) + 16))
               (corner_cut (snd (draw en fm sk s))) (corner_pattern (snd (draw en fm sk s)))
               (left_dimension (snd (draw en fm sk s)))
               (right_dimension (snd (draw en fm sk s)))]))"
proof -
  define r where "r = draw en fm sk s"
  from draw_outcomes [OF r_def] consider
    (a) "fst r \<noteq> Inr ()"
      "\<exists>evs. trace (snd r) = trace s @ evs \<and> map step_of evs = finger_cut_steps"
  | (b) "fst r \<noteq> Inr ()"
      "\<exists>evs. trace (snd r) = trace s @ evs \<and>
       map step_of evs = finger_cut_steps @ pattern_steps @ corner_cut_steps"
  | (c) "fst r \<noteq> Inr ()"
      "\<exists>evs. trace (snd r) = trace s @ evs \<and>
       map step_of evs = finger_cut_steps @ [PatternDuplicate]"
  | (d) "fst r = Inr ()"
    by (elim conjE disjE) simp_all
  then have main: "(parametric_flag (inputs fm) \<longrightarrow>
      filter (\<lambda>e. step_of e = ReplaceLiterals) (new_events s (snd r)) = []) \<and>
   (fst r \<noteq> Inr () \<longrightarrow>
      filter (\<lambda>e. step_of e = ReplaceLiterals) (new_events s (snd r)) = []) \<and>
   (fst r = Inr () \<longrightarrow>
    finger_dimension (snd r) = Some (Dimension (length (trace s) + 5)) \<and>
    offset_dimension (snd r) = Some (Dimension (length (trace s) + 6)) \<and>
    finger_cut (snd r) = Some (ExtrudeFeature (length (trace s) + 12)) \<and>
    finger_pattern (snd r) = Some (PatternFeature (length (trace s) + 16)) \<and>
    filter (\<lambda>e. step_of e = ReplaceLiterals) (new_events s (snd r)) =
      (if parametric_flag (inputs fm) then []
       else [ModifierCall (modifier fm) (alias_name fm)
               (Dimension (length (trace s) + 5)) (Dimension (length (trace s) + 6))
               (ExtrudeFeature (length (trace s) + 12))
               (PatternFeature (length (trace s) + 16))
               (corner_cut (snd r)) (corner_pattern (snd r))
               (left_dimension (snd r)) (right_dimension (snd r))]))"
  proof cases
    case a
    from a(2) obtain evs where
      evs: "trace (snd r) = trace s @ evs \<and> map step_of evs = finger_cut_steps" ..
    then have n: "new_events s (snd r) = evs" by (simp add: new_events_def)
    have "filter (\<lambda>e. step_of e = ReplaceLiterals) (new_events s (snd r)) = []"
      unfolding n
      by (rule filter_step_empty [of _ finger_cut_steps])
        (use evs in \<open>simp_all add: finger_cut_steps_def\<close>)
    with a(1) show ?thesis by simp
  next
    case b
    from b(2) obtain evs where
      evs: "trace (snd r) = trace s @ evs \<and>
        map step_of evs = finger_cut_steps @ pattern_steps @ corner_cut_steps" ..
    then have n: "new_events s (snd r) = evs" by (simp add: new_events_def)
    have "filter (\<lambda>e. step_of e = ReplaceLiterals) (new_events s (snd r)) = []"
      unfolding n
      by (rule filter_step_empty [of _ "finger_cut_steps @ pattern_steps @ corner_cut_steps"])
        (use evs in \<open>simp_all add: finger_cut_steps_def pattern_steps_def corner_cut_steps_def\<close>)
    with b(1) show ?thesis by simp
  next
    case c
    from c(2) obtain evs where
      evs: "trace (snd r) = trace s @ evs \<and>
        map step_of evs = finger_cut_steps @ [PatternDuplicate]" ..
    then have n: "new_events s (snd r) = evs" by (simp add: new_events_def)
    have "filter (\<lambda>e. step_of e = ReplaceLiterals) (new_events s (snd r)) = []"
      unfolding n
      by (rule filter_step_empty [of _ "finger_cut_steps @ [PatternDuplicate]"])
        (use evs in \<open>simp_all add: finger_cut_steps_def\<close>)
    with c(1) show ?thesis by simp
  next
    case d
    note dc = draw_returned [OF r_def d]
    from dc have at:
       "finger_dimension (snd r) = Some (Dimension (length (trace s) + 5))"
       "offset_dimension (snd r) = Some (Dimension (length (trace s) + 6))"
       "finger_cut (snd r) = Some (ExtrudeFeature (length (trace s) + 12))"
       "finger_pattern (snd r) = Some (PatternFeature (length (trace s) + 16))"
      by simp_all
    from dc have "\<exists>evs tl. trace (snd r) = trace s @ evs @ modifier_events fm (snd r) @ tl \<and>
          map step_of evs = finger_cut_steps @ pattern_steps @
            (if corner_wanted fm
             then corner_cut_steps @ pattern_steps @ corner_constrain_steps else []) \<and>
          map step_of tl = [TimelineGroup, TimelineGroup]"
      by (elim conjE)
    then obtain evs where "\<exists>tl. trace (snd r) = trace s @ evs @ modifier_events fm (snd r) @ tl \<and>
          map step_of evs = finger_cut_steps @ pattern_steps @
            (if corner_wanted fm
             then corner_cut_steps @ pattern_steps @ corner_constrain_steps else []) \<and>
          map step_of tl = [TimelineGroup, TimelineGroup]" ..
    then obtain tl where
      evs: "trace (snd r) = trace s @ evs @ modifier_events fm (snd r) @ tl \<and>
          map step_of evs = finger_cut_steps @ pattern_steps @
            (if corner_wanted fm
             then corner_cut_steps @ pattern_steps @ corner_constrain_steps else []) \<and>
          map step_of tl = [TimelineGroup, TimelineGroup]" ..
    then have n: "new_events s (snd r) = evs @ modifier_events fm (snd r) @ tl"
      by (simp add: new_events_def)
    have f1: "filter (\<lambda>e. step_of e = ReplaceLiterals) evs = []"
      by (rule filter_step_empty [of _ "finger_cut_steps @ pattern_steps @
            (if corner_wanted fm
             then corner_cut_steps @ pattern_steps @ corner_constrain_steps else [])"])
        (use evs in \<open>simp_all add: finger_cut_steps_def pattern_steps_def corner_cut_steps_def
             corner_constrain_steps_def\<close>)
    have f2: "filter (\<lambda>e. step_of e = ReplaceLiterals) tl = []"
      by (rule filter_step_empty [of _ "[TimelineGroup, TimelineGroup]"])
        (use evs in simp_all)
    have "filter (\<lambda>e. step_of e = ReplaceLiterals) (new_events s (snd r)) =
        (if parametric_flag (inputs fm) then []
         else [ModifierCall (modifier fm) (alias_name fm)
                 (Dimension (length (trace s) + 5)) (Dimension (length (trace s) + 6))
                 (ExtrudeFeature (length (trace s) + 12))
                 (PatternFeature (length (trace s) + 16))
                 (corner_cut (snd r)) (corner_pattern (snd r))
                 (left_dimension (snd r)) (right_dimension (snd r))])"
      unfolding n using f1 f2 at by (simp add: modifier_events_def)
    with at d show ?thesis by simp
  qed
  have comp: "fst (draw en fm sk s) = Inr ()"
    if h: "reference_line (border fm) = Some p \<and> (\<forall>t. isValid en t p) \<and>
      perpendicular_edge en = Some c"
  proof -
    from h have p: "reference_line (border fm) = Some p" and v: "\<And>t. isValid en t p"
      and c: "perpendicular_edge en = Some c"
      by simp_all
    from draw_completes [OF refl p v c] show ?thesis by simp
  qed
  from main comp show ?thesis
    unfolding r_def by simp
qed

text \<open>
  The amended C9 with \<open>inputs.parametric\<close> false and true.
\<close>

theorem modifier_iff_not_parametric_witness:
  "filter (\<lambda>e. step_of e = ReplaceLiterals) (new_events (fresh [])
     (snd (draw example_env example_manager (Sketch 0) (fresh [])))) =
     [ModifierCall automatic_params ''a'' (Dimension 5) (Dimension 6) (ExtrudeFeature 12)
        (PatternFeature 16)
        (corner_cut (snd (draw example_env example_manager (Sketch 0) (fresh []))))
        (corner_pattern (snd (draw example_env example_manager (Sketch 0) (fresh []))))
        (left_dimension (snd (draw example_env example_manager (Sketch 0) (fresh []))))
        (right_dimension (snd (draw example_env example_manager (Sketch 0) (fresh []))))] \<and>
   filter (\<lambda>e. step_of e = ReplaceLiterals) (new_events (fresh [])
     (snd (draw example_env parametric_manager (Sketch 0) (fresh [])))) = []"
proof -
  have b: "parametric_flag (inputs parametric_manager)"
    by (simp add: parametric_manager_def)
  have c: "\<not> parametric_flag (inputs example_manager)"
    "reference_line (border example_manager) = Some (Edge 1)"
    "modifier example_manager = automatic_params" "alias_name example_manager = ''a''"
    by (simp_all add: example_manager_def)
  have d: "perpendicular_edge example_env = Some (Edge 2)" "\<And>t. isValid example_env t (Edge 1)"
    "trace (fresh []) = []"
    by (simp_all add: example_env_def fresh_def)
  show ?thesis
    using modifier_iff_not_parametric [of example_manager "fresh []" example_env "Sketch 0"
        "Edge 1" "Edge 2"]
      modifier_iff_not_parametric [of parametric_manager "fresh []" example_env "Sketch 0"
        "Edge 1" "Edge 2"] b c d
    by simp
qed

text \<open>
  Claim C10. With a usable primary axis and no secondary axis (\<open>None\<close>),
  \<open>duplicate\<close> ends in \<open>AttributeError\<close>: the pattern input has been created,
  no message box is shown and no pattern is added. This holds whatever
  \<open>params.distance\<close> is, so in particular when it is positive. A message box among the
  host calls means that a secondary object was present.
\<close>

theorem missing_secondary_attribute_error:
  "(isValid en (trace s) p \<longrightarrow>
      fst (duplicate en fm nm fs q dd sq (Some p) None b s) = Inl AttributeError \<and>
      new_events s (snd (duplicate en fm nm fs q dd sq (Some p) None b s)) =
        [PatternsCreateInput b fs p (createByReal q) (createByReal dd) EDT]) \<and>
   (list_ex shows_message_box
      (new_events s (snd (duplicate en fm nm fs q dd sq primary secondary b s))) \<longrightarrow>
    secondary \<noteq> None)"
proof (intro conjI impI)
  assume "isValid en (trace s) p"
  then show "fst (duplicate en fm nm fs q dd sq (Some p) None b s) = Inl AttributeError"
    by (simp add: duplicate_no_secondary)
next
  assume "isValid en (trace s) p"
  then show "new_events s (snd (duplicate en fm nm fs q dd sq (Some p) None b s)) =
        [PatternsCreateInput b fs p (createByReal q) (createByReal dd) EDT]"
    by (simp add: duplicate_no_secondary new_events_def)
next
  assume a: "list_ex shows_message_box
      (new_events s (snd (duplicate en fm nm fs q dd sq primary secondary b s)))"
  show "secondary \<noteq> None"
  proof
    assume n: "secondary = None"
    show False
    proof (cases primary)
      case None
      with a show False by (simp add: duplicate_no_primary new_events_def)
    next
      case (Some p')
      with a n show False
        by (cases "isValid en (trace s) p'")
          (simp_all add: duplicate_no_secondary duplicate_invalid_primary new_events_def
             shows_message_box_def)
    qed
  qed
qed

text \<open>
  C10 with \<open>params.distance = 5\<close>, and a run that does show the message box.
\<close>

theorem missing_secondary_attribute_error_witness:
  "0 < distance (params example_manager) \<and>
   fst (duplicate example_env example_manager ''P'' [ExtrudeFeature 3] 4 20 2
          (Some (Edge 1)) None (Body 0) (fresh [])) = Inl AttributeError \<and>
   new_events (fresh [])
     (snd (duplicate example_env example_manager ''P'' [ExtrudeFeature 3] 4 20 2
          (Some (Edge 1)) None (Body 0) (fresh []))) =
     [PatternsCreateInput (Body 0) [ExtrudeFeature 3] (Edge 1) (createByReal 4)
        (createByReal 20) EDT] \<and>
   list_ex shows_message_box (new_events (fresh [])
     (snd (duplicate invalid_secondary_env example_manager ''P'' [ExtrudeFeature 3] 4 20 2
          (Some (Edge 1)) (Some (Edge 2)) (Body 0) (fresh []))))"
  using missing_secondary_attribute_error [of example_env "fresh []" "Edge 1" example_manager
      "''P''" "[ExtrudeFeature 3]" 4 20 2 "Body 0" "Some (Edge 1)" "Some (Edge 2)"]
  by (simp add: invalid_secondary_env_def example_env_def fresh_def example_manager_def
        duplicate_ok new_events_def shows_message_box_def)

end
